theory Spec2Isabelle
  imports Main
begin

text \<open>
  The control daemon and the pipeline of hyprvoice: the injector and its backend chain
  (package \<open>injection\<close>), the migration of the legacy injection mode (package \<open>config\<close>),
  the session worker (package \<open>pipeline\<close>), the lockfile check (package \<open>bus\<close>) and the
  command handler with the mode override (package \<open>daemon\<close>). Each function is the Go
  function of the same name; what the operating system, the libraries and the collaborators
  return is a parameter. Logging is left out throughout.
\<close>

section \<open>Common values\<close>

text \<open>
  A Go \<open>error\<close> value is either \<open>nil\<close> (\<open>None\<close> of \<open>error option\<close>) or an error: one that
  only has a text (\<open>ErrorString\<close>: an error of the operating system, of a library or of a
  collaborator, or a \<open>fmt.Errorf\<close> without the verb \<open>%w\<close>), or one built by \<open>fmt.Errorf\<close> with
  a format that ends in \<open>%w\<close> (\<open>Errorf\<close>: the text before the verb and the error given for the
  verb, which may itself be \<open>nil\<close>).
\<close>

datatype error = ErrorString string | Errorf string "error option"

text \<open>\<open>time.Duration\<close> is a count of nanoseconds.\<close>

type_synonym Duration = int

definition Second :: Duration where
  "Second = 1000000000"

section \<open>Package injection\<close>

text \<open>\<open>injection.Config\<close>.\<close>

record injection_Config =
  inj_Backends :: "string list"
  inj_YdotoolTimeout :: Duration
  inj_WtypeTimeout :: Duration
  inj_ClipboardTimeout :: Duration

text \<open>The three implementations of the \<open>Backend\<close> interface and their \<open>Name()\<close>.\<close>

datatype Backend = NewYdotoolBackend | NewWtypeBackend | NewClipboardBackend

fun Name :: "Backend \<Rightarrow> string" where
  "Name NewYdotoolBackend = ''ydotool''"
| "Name NewWtypeBackend = ''wtype''"
| "Name NewClipboardBackend = ''clipboard''"

record injector =
  inj_config :: injection_Config
  inj_backends :: "Backend list"

text \<open>
  The loop of \<open>NewInjector\<close> over \<open>config.Backends\<close>: the chain built so far is the
  accumulator, a known name appends its backend, any other name is skipped.
\<close>

fun buildChain :: "string list \<Rightarrow> Backend list \<Rightarrow> Backend list" where
  "buildChain [] backends = backends"
| "buildChain (name # names) backends =
     buildChain names
       (if name = ''ydotool'' then backends @ [NewYdotoolBackend]
        else if name = ''wtype'' then backends @ [NewWtypeBackend]
        else if name = ''clipboard'' then backends @ [NewClipboardBackend]
        else backends)"

definition NewInjector :: "injection_Config \<Rightarrow> injector" where
  "NewInjector config =
     (let backends = buildChain (inj_Backends config) [];
          backends = (if length backends = 0 then backends @ [NewClipboardBackend]
                      else backends)
      in \<lparr>inj_config = config, inj_backends = backends\<rparr>)"

definition getTimeout :: "injector \<Rightarrow> string \<Rightarrow> Duration" where
  "getTimeout i backendName =
     (if backendName = ''ydotool'' then inj_YdotoolTimeout (inj_config i)
      else if backendName = ''wtype'' then inj_WtypeTimeout (inj_config i)
      else if backendName = ''clipboard'' then inj_ClipboardTimeout (inj_config i)
      else 5 * Second)"

text \<open>
  What \<open>backend.Inject(ctx, text, timeout, windowAddress)\<close> returns is decided outside the
  program (by \<open>wtype\<close>, \<open>ydotool\<close>, \<open>wl-copy\<close>): it is a parameter, a function of the
  position of the call in the run of \<open>Inject\<close> and of the arguments of the call. A
  \<open>backend_call\<close> records one such call: backend name, text, timeout, window address.
\<close>

type_synonym backend_call = "string \<times> string \<times> Duration \<times> string"

type_synonym backend_env = "nat \<Rightarrow> string \<Rightarrow> string \<Rightarrow> Duration \<Rightarrow> string \<Rightarrow> error option"

text \<open>
  The \<open>for _, backend := range i.backends\<close> loop of \<open>Inject\<close>. \<open>k\<close> counts the calls made,
  \<open>lastErr\<close> and the calls made so far are carried along; the result is the returned error
  and all backend calls made.
\<close>

fun tryBackends ::
  "backend_env \<Rightarrow> injector \<Rightarrow> string \<Rightarrow> string \<Rightarrow> nat \<Rightarrow> error option \<Rightarrow> Backend list
     \<Rightarrow> backend_call list \<Rightarrow> error option \<times> backend_call list" where
  "tryBackends env i text windowAddress k lastErr [] calls =
     (Some (Errorf ''all injection backends failed, last error: '' lastErr), calls)"
| "tryBackends env i text windowAddress k lastErr (backend # rest) calls =
     (let timeout = getTimeout i (Name backend);
          err = env k (Name backend) text timeout windowAddress;
          calls = calls @ [(Name backend, text, timeout, windowAddress)]
      in case err of
           None \<Rightarrow> (None, calls)
         | Some e \<Rightarrow> tryBackends env i text windowAddress (Suc k) (Some e) rest calls)"

definition injector_Inject ::
  "backend_env \<Rightarrow> injector \<Rightarrow> string \<Rightarrow> string \<Rightarrow> error option \<times> backend_call list" where
  "injector_Inject env i text windowAddress =
     (if text = [] then (Some (ErrorString ''cannot inject empty text''), [])
      else tryBackends env i text windowAddress 0 None (inj_backends i) [])"

section \<open>Package config\<close>

record RecordingConfig =
  SampleRate :: int
  Channels :: int
  Format :: string
  BufferSize :: int
  Device :: string
  ChannelBufferSize :: int
  Timeout :: Duration

record TranscriptionConfig =
  Provider :: string
  APIKey :: string
  Language :: string
  Model :: string

record InjectionConfig =
  Backends :: "string list"
  YdotoolTimeout :: Duration
  WtypeTimeout :: Duration
  ClipboardTimeout :: Duration

record NotificationsConfig =
  Enabled :: bool
  Type :: string

record ProcessingConfig =
  Mode :: string

record LLMConfig =
  llm_Provider :: string
  llm_APIKey :: string
  llm_Model :: string
  llm_Level :: string
  llm_CustomPrompt :: string

text \<open>
  \<open>config.Config\<close>. Its field \<open>Recording\<close> is written \<open>RecordingCfg\<close>, since \<open>Recording\<close>
  is also a pipeline status.
\<close>

record Config =
  RecordingCfg :: RecordingConfig
  Transcription :: TranscriptionConfig
  Injection :: InjectionConfig
  Notifications :: NotificationsConfig
  Processing :: ProcessingConfig
  LLM :: LLMConfig

definition ToInjectionConfig :: "Config \<Rightarrow> injection_Config" where
  "ToInjectionConfig c =
     \<lparr>inj_Backends = Backends (Injection c),
      inj_YdotoolTimeout = YdotoolTimeout (Injection c),
      inj_WtypeTimeout = WtypeTimeout (Injection c),
      inj_ClipboardTimeout = ClipboardTimeout (Injection c)\<rparr>"

text \<open>
  \<open>migrateInjectionMode\<close>: the \<open>switch\<close> on the legacy mode sets the backends, then the
  ydotool timeout gets its default when it is zero.
\<close>

definition migrateInjectionMode :: "Config \<Rightarrow> string \<Rightarrow> Config" where
  "migrateInjectionMode c mode =
     (let c = (if mode = ''clipboard''
                 then c\<lparr>Injection := (Injection c)\<lparr>Backends := [''clipboard'']\<rparr>\<rparr>
               else if mode = ''type''
                 then c\<lparr>Injection := (Injection c)\<lparr>Backends := [''wtype'']\<rparr>\<rparr>
               else if mode = ''fallback''
                 then c\<lparr>Injection := (Injection c)\<lparr>Backends := [''wtype'', ''clipboard'']\<rparr>\<rparr>
               else c\<lparr>Injection := (Injection c)\<lparr>Backends := [''ydotool'', ''wtype'', ''clipboard'']\<rparr>\<rparr>)
      in if YdotoolTimeout (Injection c) = 0
           then c\<lparr>Injection := (Injection c)\<lparr>YdotoolTimeout := 5 * Second\<rparr>\<rparr>
         else c)"

text \<open>
  The migration step of \<open>Load\<close>, after the file has been decoded: \<open>config\<close> is the decoded
  configuration and \<open>legacyMode\<close> the \<open>injection.mode\<close> key of the same file as the second
  decoding reads it (the empty string when the key is missing).
\<close>

definition Load_migrate :: "Config \<Rightarrow> string \<Rightarrow> Config" where
  "Load_migrate config legacyMode =
     (if length (Backends (Injection config)) = 0
        then migrateInjectionMode config legacyMode
      else config)"

section \<open>Package pipeline\<close>

text \<open>
  \<open>Status\<close> and \<open>Action\<close> are string types with named constants; a value of either type
  can be any string, and the zero value is the empty string.
\<close>

type_synonym Status = string

type_synonym Action = string

definition Idle :: Status where
  "Idle = ''idle''"

definition Recording :: Status where
  "Recording = ''recording''"

definition Transcribing :: Status where
  "Transcribing = ''transcribing''"

definition Injecting :: Status where
  "Injecting = ''injecting''"

definition Inject :: Action where
  "Inject = ''inject''"

definition Cancel :: Action where
  "Cancel = ''cancel''"

record PipelineError =
  Title :: string
  Message :: string
  Err :: "error option"

text \<open>
  A \<open>context.Context\<close> is the root context or is derived from a parent, with or without a
  deadline. The pipeline keeps the \<open>CancelFunc\<close> of the context of its session; it is modelled
  by that context (\<open>None\<close> is the \<open>nil\<close> function).
\<close>

datatype "context" = Background | WithCancel "context" | WithTimeout "context" Duration

text \<open>
  The pipeline holds a pointer to its configuration. Configurations live in a store, a
  function from addresses to \<open>Config\<close> values; the functions of this package only read it.
  There is no \<open>nil\<close> address: the daemon creates every pipeline on the pointer of the
  configuration manager or on the address of a copy.
\<close>

type_synonym addr = nat

type_synonym heap = "addr \<Rightarrow> Config"

text \<open>
  The struct \<open>pipeline\<close>. The two channels are the lists of the values they buffer, oldest
  first (capacities 1 and 10); \<open>wg\<close> is the counter of the wait group, \<open>stopOnce\<close> tells
  whether the \<open>sync.Once\<close> has fired. The lock \<open>mu\<close> has no content.
\<close>

record pipeline =
  status :: Status
  actionCh :: "Action list"
  errorCh :: "PipelineError list"
  config :: addr
  windowAddress :: string
  cancel :: "context option"
  wg :: int
  stopOnce :: bool
  running :: bool

definition New :: "addr \<Rightarrow> pipeline" where
  "New cfg =
     \<lparr>status = [], actionCh = [], errorCh = [], config = cfg, windowAddress = [],
      cancel = None, wg = 0, stopOnce = False, running = False\<rparr>"

definition setStatus :: "pipeline \<Rightarrow> Status \<Rightarrow> pipeline" where
  "setStatus p s = p\<lparr>status := s\<rparr>"

definition setCancel :: "pipeline \<Rightarrow> context \<Rightarrow> pipeline" where
  "setCancel p c = p\<lparr>cancel := Some c\<rparr>"

definition SetWindowAddress :: "pipeline \<Rightarrow> string \<Rightarrow> pipeline" where
  "SetWindowAddress p address = p\<lparr>windowAddress := address\<rparr>"

text \<open>
  \<open>Run\<close>: the compare-and-swap on \<open>running\<close> fails when the flag is set, and the call
  returns. Otherwise the session context is derived, the cancel function stored, the wait
  group incremented and the worker started. The second component of the result is the
  context the worker was started with, \<open>None\<close> when no worker was started.
\<close>

definition Run :: "heap \<Rightarrow> pipeline \<Rightarrow> context \<Rightarrow> pipeline \<times> context option" where
  "Run h p ctx =
     (if running p then (p, None)
      else let p = p\<lparr>running := True\<rparr>;
               runCtx = WithTimeout ctx (Timeout (RecordingCfg (h (config p))));
               p = setCancel p runCtx;
               p = p\<lparr>wg := wg p + 1\<rparr>
           in (p, Some runCtx))"

text \<open>\<open>sendError\<close>: the non-blocking send drops the error when the channel is full.\<close>

definition sendError :: "pipeline \<Rightarrow> string \<Rightarrow> string \<Rightarrow> error option \<Rightarrow> pipeline" where
  "sendError p title message err =
     (let pipelineErr = \<lparr>Title = title, Message = message, Err = err\<rparr>
      in if length (errorCh p) < 10 then p\<lparr>errorCh := errorCh p @ [pipelineErr]\<rparr>
         else p)"

text \<open>
  The recorder, the transcriber and the injection backends are outside the program. What
  their operations return is a parameter: the error of \<open>recorder.Start\<close>, of
  \<open>transcriber.NewTranscriber\<close>, of \<open>t.Start\<close>, of the \<open>t.Stop\<close> during injection (the result
  of the deferred \<open>t.Stop\<close> is only logged), the result of \<open>t.GetFinalTranscription\<close> and the
  results of the backends. The calls made to them are recorded as a list of effects.
\<close>

record collaborators =
  recorderStart :: "error option"
  newTranscriber :: "error option"
  transcriberStart :: "error option"
  transcriberStop :: "error option"
  finalTranscription :: "string \<times> error option"
  backendResults :: backend_env

datatype effect =
    RecorderStart | RecorderStop | TranscriberStart | TranscriberStop | GetFinalTranscription
  | BackendInject backend_call

definition handleInjectAction ::
  "heap \<Rightarrow> collaborators \<Rightarrow> pipeline \<Rightarrow> pipeline \<times> effect list" where
  "handleInjectAction h env p =
     (if status p \<noteq> Transcribing then (p, [])
      else
        let p = setStatus p Injecting in
        case transcriberStop env of
          Some err \<Rightarrow>
            (sendError p ''Transcription Error'' ''Failed to stop transcriber during injection''
               (Some err),
             [RecorderStop, TranscriberStop])
        | None \<Rightarrow>
            (case finalTranscription env of
               (transcriptionText, Some err) \<Rightarrow>
                 (sendError p ''Transcription Error'' ''Failed to retrieve transcription''
                    (Some err),
                  [RecorderStop, TranscriberStop, GetFinalTranscription])
             | (transcriptionText, None) \<Rightarrow>
                 let injector = NewInjector (ToInjectionConfig (h (config p)));
                     (err, calls) = injector_Inject (backendResults env) injector
                                      transcriptionText (windowAddress p);
                     p = (case err of
                            Some e \<Rightarrow> sendError p ''Injection Error'' ''Failed to inject text''
                                        (Some e)
                          | None \<Rightarrow> p)
                 in (setStatus p Idle,
                     [RecorderStop, TranscriberStop, GetFinalTranscription]
                       @ map BackendInject calls)))"

text \<open>
  The worker and the goroutines around it run concurrently; a run is given by its schedule,
  the list of the steps taken in their order:
  \<^item> \<open>FrameEv\<close>, \<open>ActionEv\<close>, \<open>DoneEv\<close>: the \<open>select\<close> of the worker takes the case of
    \<open>frameCh\<close>, of \<open>p.actionCh\<close>, of \<open>ctx.Done()\<close>. The receive from \<open>p.actionCh\<close> can only be
    taken when the channel holds a value; it is skipped otherwise.
  \<^item> \<open>SendEv a\<close>: another goroutine sends \<open>a\<close> on the action channel. A sender on the full
    channel stays blocked: the step is skipped.
  \<^item> \<open>TErrEv e\<close>, \<open>RErrEv e\<close>: one of the two forwarding goroutines receives \<open>e\<close> from the
    error channel of the transcriber or of the recorder and calls \<open>sendError\<close>.
\<close>

datatype event = FrameEv | ActionEv | DoneEv | SendEv Action | TErrEv error | RErrEv error

datatype outcome = Continue pipeline | Exit pipeline "effect list"

definition send :: "pipeline \<Rightarrow> Action \<Rightarrow> pipeline" where
  "send p a = (if length (actionCh p) < 1 then p\<lparr>actionCh := actionCh p @ [a]\<rparr> else p)"

text \<open>
  One step of the schedule while the worker is in its \<open>for { select { ... } }\<close> loop:
  \<open>Exit\<close> is the \<open>return\<close> out of \<open>run\<close>.
\<close>

fun selectStep :: "heap \<Rightarrow> collaborators \<Rightarrow> pipeline \<Rightarrow> event \<Rightarrow> outcome" where
  "selectStep h env p FrameEv = Continue p"
| "selectStep h env p ActionEv =
     (case actionCh p of
        [] \<Rightarrow> Continue p
      | action # rest \<Rightarrow>
          let p = p\<lparr>actionCh := rest\<rparr>
          in if action = Inject
               then (case handleInjectAction h env p of (p, effs) \<Rightarrow> Exit p effs)
             else Continue p)"
| "selectStep h env p DoneEv = Exit p []"
| "selectStep h env p (SendEv a) = Continue (send p a)"
| "selectStep h env p (TErrEv err) =
     Continue (sendError p ''Transcription Error'' ''Transcription processing error'' (Some err))"
| "selectStep h env p (RErrEv err) =
     Continue (sendError p ''Recording Error'' ''Recording stream error'' (Some err))"

text \<open>
  The loop. The result is \<open>None\<close> when the schedule ends with the worker still in the loop
  (the session goes on); otherwise it is the state and the effects at the \<open>return\<close>.
\<close>

fun supervise ::
  "heap \<Rightarrow> collaborators \<Rightarrow> pipeline \<Rightarrow> event list \<Rightarrow> (pipeline \<times> effect list) option" where
  "supervise h env p [] = None"
| "supervise h env p (ev # evs) =
     (case selectStep h env p ev of
        Continue p \<Rightarrow> supervise h env p evs
      | Exit p effs \<Rightarrow> Some (p, effs))"

text \<open>The first deferred function of \<open>run\<close>, which runs last on every return.\<close>

definition deferred :: "pipeline \<Rightarrow> pipeline" where
  "deferred p = (setStatus (p\<lparr>running := False\<rparr>) Idle)\<lparr>wg := wg p - 1\<rparr>"

text \<open>
  The worker \<open>run\<close>. The deferred \<open>recorder.Stop\<close> and \<open>t.Stop\<close> are registered after the
  recorder and the transcriber have started, and run in reverse order before \<open>deferred\<close>.
  The result is \<open>None\<close> when the schedule ends before the worker returns.
\<close>

definition run ::
  "heap \<Rightarrow> collaborators \<Rightarrow> pipeline \<Rightarrow> event list \<Rightarrow> (pipeline \<times> effect list) option" where
  "run h env p evs =
     (let p = setStatus p Recording in
      case recorderStart env of
        Some err \<Rightarrow>
          Some (deferred (sendError p ''Recording Error'' ''Failed to start recording'' (Some err)),
                [RecorderStart])
      | None \<Rightarrow>
          (case newTranscriber env of
             Some err \<Rightarrow>
               Some (deferred (sendError p ''Transcription Error''
                                 ''Failed to create transcriber'' (Some err)),
                     [RecorderStart, RecorderStop])
           | None \<Rightarrow>
               let p = setStatus p Transcribing in
               case transcriberStart env of
                 Some err \<Rightarrow>
                   Some (deferred (sendError p ''Transcription Error''
                                     ''Failed to start transcriber'' (Some err)),
                         [RecorderStart, TranscriberStart, RecorderStop])
               | None \<Rightarrow>
                   (case supervise h env p evs of
                      None \<Rightarrow> None
                    | Some (p, effs) \<Rightarrow>
                        Some (deferred p,
                              [RecorderStart, TranscriberStart] @ effs
                                @ [TranscriberStop, RecorderStop]))))"

text \<open>
  \<open>Stop\<close>: the \<open>sync.Once\<close> calls the stored cancel function, if there is one, on the first
  call only. The second component is the context that gets cancelled. The wait for the worker
  that follows is a synchronisation and changes no field.
\<close>

definition Stop :: "pipeline \<Rightarrow> pipeline \<times> context option" where
  "Stop p = (if stopOnce p then (p, None) else (p\<lparr>stopOnce := True\<rparr>, cancel p))"

section \<open>Package bus: the lockfile\<close>

text \<open>
  The part of the file system \<open>checkExisting\<close> works on: the files with their contents, and
  for each path the error with which reading or removing at that path fails for another
  reason than the file not being there (a permission, a component of the path that is not a
  directory), if it does; that can be so whether or not there is a file. When there is no
  such error, \<open>os.ReadFile\<close> and \<open>os.Remove\<close> fail on a missing file with the error for which
  \<open>os.IsNotExist\<close> holds, and succeed on a file.
\<close>

datatype os_error = NotExist | OtherError error

record filesystem =
  files :: "string \<rightharpoonup> string"
  readError :: "string \<Rightarrow> error option"
  removeError :: "string \<Rightarrow> error option"

definition os_ReadFile :: "filesystem \<Rightarrow> string \<Rightarrow> os_error + string" where
  "os_ReadFile fs name =
     (case readError fs name of
        Some e \<Rightarrow> Inl (OtherError e)
      | None \<Rightarrow> (case files fs name of None \<Rightarrow> Inl NotExist | Some data \<Rightarrow> Inr data))"

definition os_Remove :: "filesystem \<Rightarrow> string \<Rightarrow> filesystem \<times> os_error option" where
  "os_Remove fs name =
     (case removeError fs name of
        Some e \<Rightarrow> (fs, Some (OtherError e))
      | None \<Rightarrow>
          (case files fs name of
             None \<Rightarrow> (fs, Some NotExist)
           | Some data \<Rightarrow> (fs\<lparr>files := (files fs)(name := None)\<rparr>, None)))"

text \<open>
  \<open>strconv.Atoi\<close> on a 64-bit platform: an optional sign, then one or more decimal digits and
  nothing else, and a value that fits \<open>int\<close>; \<open>None\<close> stands for its error (syntax or range).
  \<open>strconv.Itoa\<close> is the decimal numeral of an integer, as \<open>%d\<close> prints it.
\<close>

definition isDigit :: "char \<Rightarrow> bool" where
  "isDigit c = (c \<in> set ''0123456789'')"

definition digitVal :: "char \<Rightarrow> nat" where
  "digitVal c = of_char c - 48"

definition Atoi :: "string \<Rightarrow> int option" where
  "Atoi s =
     (let (neg, ds) = (case s of
                         c # r \<Rightarrow> if c = CHR ''-'' then (True, r)
                                  else if c = CHR ''+'' then (False, r)
                                  else (False, s)
                       | [] \<Rightarrow> (False, s))
      in if ds = [] \<or> \<not> list_all isDigit ds then None
         else let n = int (foldl (\<lambda>n c. n * 10 + digitVal c) 0 ds);
                  v = (if neg then - n else n)
              in if v < - (2 ^ 63) \<or> 2 ^ 63 - 1 < v then None else Some v)"

function natDigits :: "nat \<Rightarrow> string" where
  "natDigits n =
     (if n < 10 then [char_of (48 + n)]
      else natDigits (n div 10) @ [char_of (48 + n mod 10)])"
  by pat_completeness auto
termination
  by (relation "measure id") auto

declare natDigits.simps [simp del]

definition Itoa :: "int \<Rightarrow> string" where
  "Itoa i = (if i < 0 then CHR ''-'' # natDigits (nat (- i)) else natDigits (nat i))"

text \<open>
  The processes of the system as \<open>isProcessAlive\<close> sees them: the error of \<open>os.FindProcess\<close>
  and the error of sending signal 0, for each process identifier.
\<close>

record processes =
  FindProcess :: "int \<Rightarrow> error option"
  Signal0 :: "int \<Rightarrow> error option"

definition isProcessAlive :: "processes \<Rightarrow> int \<Rightarrow> bool" where
  "isProcessAlive ps pid =
     (case FindProcess ps pid of
        Some err \<Rightarrow> False
      | None \<Rightarrow> (case Signal0 ps pid of Some err \<Rightarrow> False | None \<Rightarrow> True))"

record pidManager =
  path :: string

text \<open>\<open>removeStaleFile\<close>: an error of \<open>os.Remove\<close> is logged, nothing else.\<close>

definition removeStaleFile :: "pidManager \<Rightarrow> filesystem \<Rightarrow> filesystem" where
  "removeStaleFile pm fs = fst (os_Remove fs (path pm))"

definition checkExisting ::
  "processes \<Rightarrow> pidManager \<Rightarrow> filesystem \<Rightarrow> filesystem \<times> error option" where
  "checkExisting ps pm fs =
     (case os_ReadFile fs (path pm) of
        Inl NotExist \<Rightarrow> (fs, None)
      | Inl (OtherError err) \<Rightarrow> (fs, Some (Errorf ''error reading PID file: '' (Some err)))
      | Inr pidData \<Rightarrow>
          (case Atoi pidData of
             None \<Rightarrow> (removeStaleFile pm fs, None)
           | Some pid \<Rightarrow>
               if isProcessAlive ps pid
                 then (fs, Some (ErrorString (''daemon already running with PID '' @ Itoa pid)))
               else (removeStaleFile pm fs, None)))"

section \<open>Package daemon\<close>

text \<open>
  Library functions the command handler uses. \<open>ReadString\<close> of \<open>bufio\<close> with the newline as
  delimiter, on a connection on which the client sends \<open>sent\<close> and whose reading then ends
  with the error \<open>endErr\<close> (\<open>io.EOF\<close> when the client closes): it returns the data up to and
  including the first newline, and an error exactly when there is no newline. \<open>Error\<close> is the
  text of an error as \<open>%v\<close> prints it.
\<close>

definition NL :: char where
  "NL = CHR 0x0A"

definition EOF :: error where
  "EOF = ErrorString ''EOF''"

definition ReadString :: "string \<Rightarrow> error \<Rightarrow> string \<times> error option" where
  "ReadString sent endErr =
     (if NL \<in> set sent then (takeWhile (\<lambda>c. c \<noteq> NL) sent @ [NL], None)
      else (sent, Some endErr))"

fun Error :: "error \<Rightarrow> string" where
  "Error (ErrorString msg) = msg"
| "Error (Errorf msg (Some e)) = msg @ Error e"
| "Error (Errorf msg None) = msg @ ''%!w(<nil>)''"

text \<open>
  \<open>strings.TrimSpace\<close> removes the leading and the trailing white space of a string, rune by
  rune of its UTF-8 reading. \<open>spaceRunes\<close> are the UTF-8 encodings of the runes for which
  \<open>unicode.IsSpace\<close> holds: tab, line feed, vertical tab, form feed, carriage return, space,
  U+0085, U+00A0, U+1680, U+2000 to U+200A, U+2028, U+2029, U+202F, U+205F and U+3000. Bytes
  that are not valid UTF-8 read as the replacement rune, which is no white space. No encoding
  in the list is the beginning or the end of another, so a string begins (ends) with a white
  space rune exactly when it begins (ends) with one of the encodings. \<open>runeWidth\<close> is the
  length of the encoding the string begins with, 0 when it begins with none.
\<close>

definition spaceRunes :: "string list" where
  "spaceRunes =
     [[CHR 0x09], [CHR 0x0A], [CHR 0x0B], [CHR 0x0C], [CHR 0x0D], [CHR 0x20],
      [CHR 0xC2, CHR 0x85], [CHR 0xC2, CHR 0xA0], [CHR 0xE1, CHR 0x9A, CHR 0x80],
      [CHR 0xE2, CHR 0x80, CHR 0x80], [CHR 0xE2, CHR 0x80, CHR 0x81],
      [CHR 0xE2, CHR 0x80, CHR 0x82], [CHR 0xE2, CHR 0x80, CHR 0x83],
      [CHR 0xE2, CHR 0x80, CHR 0x84], [CHR 0xE2, CHR 0x80, CHR 0x85],
      [CHR 0xE2, CHR 0x80, CHR 0x86], [CHR 0xE2, CHR 0x80, CHR 0x87],
      [CHR 0xE2, CHR 0x80, CHR 0x88], [CHR 0xE2, CHR 0x80, CHR 0x89],
      [CHR 0xE2, CHR 0x80, CHR 0x8A], [CHR 0xE2, CHR 0x80, CHR 0xA8],
      [CHR 0xE2, CHR 0x80, CHR 0xA9], [CHR 0xE2, CHR 0x80, CHR 0xAF],
      [CHR 0xE2, CHR 0x81, CHR 0x9F], [CHR 0xE3, CHR 0x80, CHR 0x80]]"

definition runeWidth :: "string list \<Rightarrow> string \<Rightarrow> nat" where
  "runeWidth encs s =
     (case find (\<lambda>e. take (length e) s = e) encs of None \<Rightarrow> 0 | Some e \<Rightarrow> length e)"

function trimLeading :: "string list \<Rightarrow> string \<Rightarrow> string" where
  "trimLeading encs s =
     (if s = [] \<or> runeWidth encs s = 0 then s
      else trimLeading encs (drop (runeWidth encs s) s))"
  by pat_completeness auto
termination
  by (relation "measure (\<lambda>(encs, s). length s)") auto

declare trimLeading.simps [simp del]

definition TrimSpace :: "string \<Rightarrow> string" where
  "TrimSpace s = rev (trimLeading (map rev spaceRunes) (rev (trimLeading spaceRunes s)))"

definition HasPrefix :: "string \<Rightarrow> string \<Rightarrow> bool" where
  "HasPrefix s pre = (take (length pre) s = pre)"

definition TrimPrefix :: "string \<Rightarrow> string \<Rightarrow> string" where
  "TrimPrefix s pre = (if HasPrefix s pre then drop (length pre) s else s)"

text \<open>
  What the daemon takes from outside: the constant \<open>bus.ProtoVer\<close>, the text the verb \<open>%q\<close>
  prints for a byte, and the window address \<open>getActiveWindow\<close> obtains from \<open>hyprctl\<close> (empty
  when that fails).
\<close>

record daemon_env =
  ProtoVer :: string
  quoted :: "char \<Rightarrow> string"
  activeWindow :: string

text \<open>
  The struct \<open>Daemon\<close>. The configuration manager hands out a pointer to the current
  configuration: \<open>store\<close> holds the configurations, \<open>nextAddr\<close> is the next free address and
  \<open>configMgr\<close> the pointer \<open>GetConfig\<close> returns. \<open>cancelled\<close> tells whether the root context
  has been cancelled. The notifier only produces output and is left out, as is logging.
\<close>

record Daemon =
  store :: heap
  nextAddr :: addr
  configMgr :: addr
  d_pipeline :: "pipeline option"
  cancelled :: bool
  modeOverride :: string

definition d_ctx :: "context" where
  "d_ctx = WithCancel Background"

definition daemon_status :: "Daemon \<Rightarrow> Status" where
  "daemon_status d = (case d_pipeline d of None \<Rightarrow> Idle | Some p \<Rightarrow> status p)"

text \<open>
  \<open>stopPipeline\<close> drops the reference to the pipeline and calls \<open>Stop\<close> on it, which cancels
  its session and waits for its worker.
\<close>

definition stopPipeline :: "Daemon \<Rightarrow> Daemon" where
  "stopPipeline d = d\<lparr>d_pipeline := None\<rparr>"

definition onConfigReload :: "Daemon \<Rightarrow> Daemon" where
  "onConfigReload d = stopPipeline d"

definition getEffectiveMode :: "Daemon \<Rightarrow> string" where
  "getEffectiveMode d =
     (if modeOverride d \<noteq> [] then modeOverride d
      else Mode (Processing (store d (configMgr d))))"

definition setModeOverride :: "Daemon \<Rightarrow> string \<Rightarrow> Daemon" where
  "setModeOverride d mode = d\<lparr>modeOverride := mode\<rparr>"

text \<open>
  \<open>getConfigWithModeOverride\<close>: with an override, \<open>cfgCopy := *cfg\<close> is a new configuration
  at a new address, whose mode is then set; without one the pointer of the manager is
  returned.
\<close>

definition getConfigWithModeOverride :: "Daemon \<Rightarrow> Daemon \<times> addr" where
  "getConfigWithModeOverride d =
     (let cfg = configMgr d
      in if modeOverride d \<noteq> []
           then let cfgCopy = store d cfg;
                    cfgCopy = cfgCopy\<lparr>Processing := (Processing cfgCopy)\<lparr>Mode := modeOverride d\<rparr>\<rparr>
                in (d\<lparr>store := (store d)(nextAddr d := cfgCopy), nextAddr := nextAddr d + 1\<rparr>,
                    nextAddr d)
         else (d, cfg))"

text \<open>
  \<open>toggle\<close>. In state \<open>Transcribing\<close> the send on the action channel blocks while the
  channel is full: the result is \<open>None\<close> then.
\<close>

definition toggle :: "daemon_env \<Rightarrow> Daemon \<Rightarrow> Daemon option" where
  "toggle env d =
     (let s = daemon_status d
      in if s = Idle then
           let (d, cfg) = getConfigWithModeOverride d;
               address = activeWindow env;
               p = New cfg;
               p = (if address \<noteq> [] then SetWindowAddress p address else p);
               p = fst (Run (store d) p d_ctx)
           in Some (d\<lparr>d_pipeline := Some p\<rparr>)
         else if s = Recording then Some (stopPipeline d)
         else if s = Transcribing then
           (case d_pipeline d of
              Some p \<Rightarrow>
                if length (actionCh p) < 1
                  then Some (d\<lparr>d_pipeline := Some (p\<lparr>actionCh := actionCh p @ [Inject]\<rparr>)\<rparr>)
                else None
            | None \<Rightarrow> Some d)
         else if s = Injecting then Some (stopPipeline d)
         else Some d)"

definition cancelPipeline :: "Daemon \<Rightarrow> Daemon" where
  "cancelPipeline d = (if daemon_status d = Idle then d else stopPipeline d)"

text \<open>
  \<open>handle\<close> for a connection on which the client sends \<open>sent\<close>. The result is the state of
  the daemon and the response written to the connection.
\<close>

definition handle ::
  "daemon_env \<Rightarrow> Daemon \<Rightarrow> string \<Rightarrow> error \<Rightarrow> (Daemon \<times> string) option" where
  "handle env d sent endErr =
     (case ReadString sent endErr of
        (line, Some err) \<Rightarrow> Some (d, ''ERR read_error: '' @ Error err @ [NL])
      | (line, None) \<Rightarrow>
          (case line of
             [] \<Rightarrow> Some (d, ''ERR empty'' @ [NL])
           | cmd # rest \<Rightarrow>
               if cmd = CHR ''t'' then
                 (case toggle env d of
                    None \<Rightarrow> None
                  | Some d \<Rightarrow> Some (d, ''OK toggled'' @ [NL]))
               else if cmd = CHR ''c'' then Some (cancelPipeline d, ''OK cancelled'' @ [NL])
               else if cmd = CHR ''s'' then
                 Some (d, ''STATUS status='' @ daemon_status d @ [NL])
               else if cmd = CHR ''v'' then Some (d, ''STATUS proto='' @ ProtoVer env @ [NL])
               else if cmd = CHR ''q'' then Some (d\<lparr>cancelled := True\<rparr>, ''OK quitting'' @ [NL])
               else if cmd = CHR ''m'' then
                 (let modeArg = TrimSpace rest
                  in if modeArg = [] then Some (d, ''MODE mode='' @ getEffectiveMode d @ [NL])
                     else if HasPrefix modeArg '':'' then
                       (let newMode = TrimPrefix modeArg '':''
                        in if newMode \<noteq> ''raw'' \<and> newMode \<noteq> ''llm''
                             then Some (d, ''ERR invalid_mode='' @ newMode @ [NL])
                           else Some (setModeOverride d newMode, ''OK mode='' @ newMode @ [NL]))
                     else Some (d, ''ERR invalid_mode_command'' @ [NL]))
               else Some (d, ''ERR unknown='' @ quoted env cmd @ [NL])))"

text \<open>
  Modelled from the spec: the configuration manager (\<open>config.Manager\<close>, with \<open>GetConfig\<close> and
  the file watcher) is not among the sources. The spec says of it: "Mutating operations
  replace the whole snapshot atomically" and "On file change: parse; if parsing or validation
  fails, keep the previous snapshot [...]; otherwise atomically replace and invoke the reload
  callback." So a reload whose file parses puts the new configuration at a new address,
  makes it the current one and calls \<open>onConfigReload\<close>; \<open>parsed\<close> is the result of parsing
  and validating the file.
\<close>

definition Manager_reload :: "Daemon \<Rightarrow> error + Config \<Rightarrow> Daemon" where
  "Manager_reload d parsed =
     (case parsed of
        Inl err \<Rightarrow> d
      | Inr newConfig \<Rightarrow>
          onConfigReload
            (d\<lparr>store := (store d)(nextAddr d := newConfig), configMgr := nextAddr d,
               nextAddr := nextAddr d + 1\<rparr>))"

section \<open>Vocabulary of the properties and example inputs\<close>

text \<open>The \<open>switch\<close> of \<open>NewInjector\<close> as a table from names to backends.\<close>

fun backendOfName :: "string \<Rightarrow> Backend option" where
  "backendOfName name =
     (if name = ''ydotool'' then Some NewYdotoolBackend
      else if name = ''wtype'' then Some NewWtypeBackend
      else if name = ''clipboard'' then Some NewClipboardBackend
      else None)"

text \<open>
  The timeout the configuration gives for a backend: the field of \<open>injection.Config\<close> that
  belongs to it.
\<close>

fun configuredTimeout :: "injection_Config \<Rightarrow> Backend \<Rightarrow> Duration" where
  "configuredTimeout c NewYdotoolBackend = inj_YdotoolTimeout c"
| "configuredTimeout c NewWtypeBackend = inj_WtypeTimeout c"
| "configuredTimeout c NewClipboardBackend = inj_ClipboardTimeout c"

text \<open>
  The call that \<open>Inject\<close> is to make to a backend: its name, the text, its configured timeout
  and the window address. And the result of the \<open>j\<close>-th call of a run of \<open>Inject\<close> when that
  call goes to the \<open>j\<close>-th backend of the chain, with these arguments.
\<close>

definition backendCall :: "injector \<Rightarrow> string \<Rightarrow> string \<Rightarrow> Backend \<Rightarrow> backend_call" where
  "backendCall i text window b = (Name b, text, configuredTimeout (inj_config i) b, window)"

definition callResult :: "backend_env \<Rightarrow> injector \<Rightarrow> string \<Rightarrow> string \<Rightarrow> nat \<Rightarrow> error option" where
  "callResult env i text window j =
     env j (Name (inj_backends i ! j)) text (configuredTimeout (inj_config i) (inj_backends i ! j))
       window"

text \<open>Example inputs: an injector with the default chain, two environments, a configuration.\<close>

definition chain3 :: injector where
  "chain3 = NewInjector \<lparr>inj_Backends = [''ydotool'', ''wtype'', ''clipboard''],
     inj_YdotoolTimeout = 7 * Second, inj_WtypeTimeout = 4 * Second, inj_ClipboardTimeout = 3 * Second\<rparr>"

definition onlyWtypeWorks :: backend_env where
  "onlyWtypeWorks k name text timeout w =
     (if name = ''wtype'' then None else Some (ErrorString (name @ '' failed'')))"

definition nothingWorks :: backend_env where
  "nothingWorks k name text timeout w = Some (ErrorString (name @ '' failed''))"

definition exampleConfig :: Config where
  "exampleConfig =
     \<lparr>RecordingCfg = \<lparr>SampleRate = 16000, Channels = 1, Format = ''s16'', BufferSize = 8192,
                       Device = [], ChannelBufferSize = 30, Timeout = 300 * Second\<rparr>,
      Transcription = \<lparr>Provider = ''openai'', APIKey = ''test-key'', Language = [],
                        Model = ''whisper-1''\<rparr>,
      Injection = \<lparr>Backends = [], YdotoolTimeout = 0, WtypeTimeout = 5 * Second,
                    ClipboardTimeout = 3 * Second\<rparr>,
      Notifications = \<lparr>Enabled = True, Type = ''log''\<rparr>,
      Processing = \<lparr>Mode = ''raw''\<rparr>,
      LLM = \<lparr>llm_Provider = [], llm_APIKey = [], llm_Model = [], llm_Level = [],
              llm_CustomPrompt = []\<rparr>\<rparr>"

text \<open>
  The state the worker is in after a schedule during which it stays in its loop (\<open>None\<close> when
  it returns during the schedule), and the state in which it enters the loop.
\<close>

fun progress :: "heap \<Rightarrow> collaborators \<Rightarrow> pipeline \<Rightarrow> event list \<Rightarrow> pipeline option" where
  "progress h env p [] = Some p"
| "progress h env p (ev # evs) =
     (case selectStep h env p ev of
        Continue p \<Rightarrow> progress h env p evs
      | Exit p effs \<Rightarrow> None)"

definition atLoop :: "pipeline \<Rightarrow> pipeline" where
  "atLoop p = setStatus (setStatus p Recording) Transcribing"

text \<open>
  Example inputs: a store holding the loaded configuration of the daemon tests
  (\<open>mode = "fallback"\<close>), collaborators that work or fail, a pipeline after \<open>Run\<close>, and a
  pipeline in state \<open>Recording\<close> whose mailbox holds an \<open>Inject\<close>.
\<close>

definition exampleHeap :: heap where
  "exampleHeap a = Load_migrate exampleConfig ''fallback''"

definition okEnv :: collaborators where
  "okEnv = \<lparr>recorderStart = None, newTranscriber = None, transcriberStart = None,
            transcriberStop = None, finalTranscription = (''hello'', None),
            backendResults = onlyWtypeWorks\<rparr>"

definition someError :: error where
  "someError = ErrorString ''device busy''"

definition startedPipeline :: pipeline where
  "startedPipeline = fst (Run exampleHeap (New 0) Background)"

definition failingRecorder :: collaborators where
  "failingRecorder = okEnv\<lparr>recorderStart := Some someError\<rparr>"

definition noTranscriber :: collaborators where
  "noTranscriber = okEnv\<lparr>newTranscriber := Some someError\<rparr>"

definition failingTranscriber :: collaborators where
  "failingTranscriber = okEnv\<lparr>transcriberStart := Some someError\<rparr>"

definition recordingPipeline :: pipeline where
  "recordingPipeline = (setStatus startedPipeline Recording)\<lparr>actionCh := [Inject]\<rparr>"

text \<open>
  Example inputs: file systems holding a lockfile with the given contents, one on which
  removing fails, one without a lockfile on which reading fails because a component of the
  path is not a directory, and a process table in which one process is alive.
\<close>

definition lockPath :: string where
  "lockPath = ''/home/u/.cache/hyprvoice/hyprvoice.pid''"

definition lockfs :: "string \<Rightarrow> filesystem" where
  "lockfs content =
     \<lparr>files = [lockPath \<mapsto> content], readError = (\<lambda>name. None), removeError = (\<lambda>name. None)\<rparr>"

definition stuckfs :: "string \<Rightarrow> filesystem" where
  "stuckfs content =
     (lockfs content)\<lparr>removeError := (\<lambda>name. Some (ErrorString ''permission denied''))\<rparr>"

definition onlyPid :: "int \<Rightarrow> processes" where
  "onlyPid live =
     \<lparr>FindProcess = (\<lambda>pid. None),
      Signal0 = (\<lambda>pid. if pid = live then None else Some (ErrorString ''no such process''))\<rparr>"

definition nodirfs :: filesystem where
  "nodirfs =
     \<lparr>files = Map.empty,
      readError = (\<lambda>name. Some (ErrorString ''not a directory'')),
      removeError = (\<lambda>name. None)\<rparr>"

text \<open>
  The pointers of the daemon are allocated: the configuration of the manager and the
  configuration of the pipeline, if there is one, lie below the next free address.
\<close>

definition allocated :: "Daemon \<Rightarrow> bool" where
  "allocated d =
     (configMgr d < nextAddr d
      \<and> (case d_pipeline d of None \<Rightarrow> True | Some p \<Rightarrow> config p < nextAddr d))"

text \<open>
  Example inputs: an environment of the daemon, a daemon without a pipeline, and a daemon
  whose pipeline is in state \<open>Transcribing\<close>, both on the example store.
\<close>

definition exampleEnv :: daemon_env where
  "exampleEnv = \<lparr>ProtoVer = ''0.1'', quoted = (\<lambda>c. [CHR 0x27, c, CHR 0x27]), activeWindow = ''0x55d''\<rparr>"

definition idleDaemon :: Daemon where
  "idleDaemon =
     \<lparr>store = exampleHeap, nextAddr = 1, configMgr = 0, d_pipeline = None, cancelled = False,
      modeOverride = []\<rparr>"

definition busyDaemon :: Daemon where
  "busyDaemon = idleDaemon\<lparr>d_pipeline := Some (atLoop startedPipeline)\<rparr>"



section \<open>The backend chain of the injector\<close>

lemma buildChain_append: "buildChain names acc = acc @ buildChain names []"
proof (induction names arbitrary: acc)
  case Nil
  show ?case by simp
next
  case (Cons name names)
  show ?case
    using Cons.IH [of "acc @ [NewYdotoolBackend]"] Cons.IH [of "acc @ [NewWtypeBackend]"]
      Cons.IH [of "acc @ [NewClipboardBackend]"] Cons.IH [of "[NewYdotoolBackend]"]
      Cons.IH [of "[NewWtypeBackend]"] Cons.IH [of "[NewClipboardBackend]"] Cons.IH [of acc]
    by simp
qed

lemma buildChain_map_filter: "buildChain names [] = List.map_filter backendOfName names"
proof (induction names)
  case Nil
  show ?case by (simp add: List.map_filter_simps)
next
  case (Cons name names)
  show ?case
    using buildChain_append [of names "[NewYdotoolBackend]"]
      buildChain_append [of names "[NewWtypeBackend]"]
      buildChain_append [of names "[NewClipboardBackend]"] Cons.IH
    by (simp add: List.map_filter_simps)
qed

lemma tryBackends_all_fail:
  "\<forall>j<length bs. env (k + j) (Name (bs ! j)) str (getTimeout i (Name (bs ! j))) w \<noteq> None \<Longrightarrow>
   tryBackends env i str w k lastErr bs calls =
     (Some (Errorf ''all injection backends failed, last error: ''
        (if bs = [] then lastErr
         else env (k + length bs - 1) (Name (last bs)) str (getTimeout i (Name (last bs))) w)),
      calls @ map (\<lambda>b. (Name b, str, getTimeout i (Name b), w)) bs)"
proof (induction bs arbitrary: k lastErr calls)
  case Nil
  show ?case by simp
next
  case (Cons b bs)
  from Cons.prems have h0: "env k (Name b) str (getTimeout i (Name b)) w \<noteq> None"
    by auto
  then obtain e where e: "env k (Name b) str (getTimeout i (Name b)) w = Some e"
    by auto
  from Cons.prems have tl: "\<forall>j<length bs. env (Suc k + j) (Name (bs ! j)) str (getTimeout i (Name (bs ! j))) w \<noteq> None"
    by auto
  show ?case
    using Cons.IH [OF tl, of "Some e" "calls @ [(Name b, str, getTimeout i (Name b), w)]"] e
    by (cases bs) simp_all
qed

lemma tryBackends_first_success:
  "n < length bs \<Longrightarrow>
   \<forall>j<n. env (k + j) (Name (bs ! j)) str (getTimeout i (Name (bs ! j))) w \<noteq> None \<Longrightarrow>
   env (k + n) (Name (bs ! n)) str (getTimeout i (Name (bs ! n))) w = None \<Longrightarrow>
   tryBackends env i str w k lastErr bs calls =
     (None, calls @ map (\<lambda>b. (Name b, str, getTimeout i (Name b), w)) (take (Suc n) bs))"
proof (induction bs arbitrary: k n lastErr calls)
  case Nil
  then show ?case by simp
next
  case (Cons b bs)
  show ?case
  proof (cases n)
    case 0
    with Cons.prems show ?thesis by simp
  next
    case (Suc m)
    from Cons.prems Suc obtain e where e: "env k (Name b) str (getTimeout i (Name b)) w = Some e"
      by fastforce
    have 1: "m < length bs" using Cons.prems Suc by simp
    have 2: "\<forall>j<m. env (Suc k + j) (Name (bs ! j)) str (getTimeout i (Name (bs ! j))) w \<noteq> None"
      using Cons.prems(2) Suc by fastforce
    have 3: "env (Suc k + m) (Name (bs ! m)) str (getTimeout i (Name (bs ! m))) w = None"
      using Cons.prems(3) Suc by simp
    show ?thesis
      using Cons.IH [OF 1 2 3, of "Some e" "calls @ [(Name b, str, getTimeout i (Name b), w)]"] e Suc
      by simp
  qed
qed

lemma tryBackends_error_nonnil:
  "tryBackends env i str w k lastErr bs calls = (Some (Errorf m e), calls') \<Longrightarrow>
   bs \<noteq> [] \<or> lastErr \<noteq> None \<Longrightarrow> e \<noteq> None"
proof (induction bs arbitrary: k lastErr calls)
  case Nil
  then show ?case by simp
next
  case (Cons b bs)
  show ?case
  proof (cases "env k (Name b) str (getTimeout i (Name b)) w")
    case None
    with Cons.prems(1) show ?thesis by simp
  next
    case (Some e')
    with Cons.prems(1) have
      "tryBackends env i str w (Suc k) (Some e') bs (calls @ [(Name b, str, getTimeout i (Name b), w)])
        = (Some (Errorf m e), calls')"
      by simp
    then show ?thesis
      by (rule Cons.IH) simp
  qed
qed

lemma NewInjector_backends:
  "inj_backends (NewInjector cfg) =
     (if buildChain (inj_Backends cfg) [] = [] then [NewClipboardBackend]
      else buildChain (inj_Backends cfg) [])"
  by (simp add: NewInjector_def Let_def)

lemma map_Name_map_filter:
  "map Name (List.map_filter backendOfName names)
     = filter (\<lambda>name. name \<in> {''ydotool'', ''wtype'', ''clipboard''}) names"
  by (induction names) (simp_all add: List.map_filter_simps)

lemma getTimeout_configured: "getTimeout i (Name b) = configuredTimeout (inj_config i) b"
  by (cases b) (simp_all add: getTimeout_def)

lemma chain3_backends: "inj_backends chain3 = [NewYdotoolBackend, NewWtypeBackend, NewClipboardBackend]"
  by (simp add: chain3_def NewInjector_def)

lemma chain3_config:
  "inj_config chain3 = \<lparr>inj_Backends = [''ydotool'', ''wtype'', ''clipboard''],
     inj_YdotoolTimeout = 7 * Second, inj_WtypeTimeout = 4 * Second, inj_ClipboardTimeout = 3 * Second\<rparr>"
  by (simp add: chain3_def NewInjector_def)

text \<open>
  Claim C6. For a non-empty text, \<open>Inject\<close> calls the backends in the order of the chain, each
  with the timeout the configuration has for it (\<open>YdotoolTimeout\<close> for ydotool, \<open>WtypeTimeout\<close>
  for wtype, \<open>ClipboardTimeout\<close> for the clipboard). If the \<open>n\<close>-th backend is the first to
  succeed, \<open>Inject\<close> returns \<open>nil\<close> and has called exactly the first \<open>n + 1\<close> backends. If every
  backend fails, all of them have been called and the returned error wraps the error of the last
  one (there is none to wrap for an empty chain, which \<open>NewInjector\<close> never builds). For the
  empty text \<open>Inject\<close> returns an error and calls no backend.
\<close>

theorem Inject_backend_chain:
  "(text \<noteq> [] \<and> n < length (inj_backends i) \<and> (\<forall>j<n. callResult env i text w j \<noteq> None)
      \<and> callResult env i text w n = None
    \<longrightarrow> injector_Inject env i text w
          = (None, map (backendCall i text w) (take (Suc n) (inj_backends i))))
   \<and> (text \<noteq> [] \<and> (\<forall>j<length (inj_backends i). callResult env i text w j \<noteq> None)
    \<longrightarrow> injector_Inject env i text w
          = (Some (Errorf ''all injection backends failed, last error: ''
                     (if inj_backends i = [] then None
                      else callResult env i text w (length (inj_backends i) - 1))),
             map (backendCall i text w) (inj_backends i)))
   \<and> injector_Inject env i [] w = (Some (ErrorString ''cannot inject empty text''), [])"
proof (intro conjI impI)
  assume a: "text \<noteq> [] \<and> n < length (inj_backends i) \<and> (\<forall>j<n. callResult env i text w j \<noteq> None)
      \<and> callResult env i text w n = None"
  have "tryBackends env i text w 0 None (inj_backends i) []
          = (None, [] @ map (\<lambda>b. (Name b, text, getTimeout i (Name b), w)) (take (Suc n) (inj_backends i)))"
    by (rule tryBackends_first_success)
      (use a in \<open>simp_all add: callResult_def getTimeout_configured\<close>)
  then show "injector_Inject env i text w
          = (None, map (backendCall i text w) (take (Suc n) (inj_backends i)))"
    using a by (simp add: injector_Inject_def backendCall_def [abs_def] getTimeout_configured)
next
  assume a: "text \<noteq> [] \<and> (\<forall>j<length (inj_backends i). callResult env i text w j \<noteq> None)"
  then have f: "\<forall>j<length (inj_backends i).
      env (0 + j) (Name (inj_backends i ! j)) text (getTimeout i (Name (inj_backends i ! j))) w \<noteq> None"
    by (simp add: callResult_def getTimeout_configured)
  have "tryBackends env i text w 0 None (inj_backends i) [] =
     (Some (Errorf ''all injection backends failed, last error: ''
        (if inj_backends i = [] then None
         else env (0 + length (inj_backends i) - 1) (Name (last (inj_backends i))) text
                (getTimeout i (Name (last (inj_backends i)))) w)),
      [] @ map (\<lambda>b. (Name b, text, getTimeout i (Name b), w)) (inj_backends i))"
    by (rule tryBackends_all_fail) (use f in simp)
  then show "injector_Inject env i text w
          = (Some (Errorf ''all injection backends failed, last error: ''
                     (if inj_backends i = [] then None
                      else callResult env i text w (length (inj_backends i) - 1))),
             map (backendCall i text w) (inj_backends i))"
    using a
    by (simp add: injector_Inject_def backendCall_def [abs_def] callResult_def last_conv_nth
        getTimeout_configured)
next
  show "injector_Inject env i [] w = (Some (ErrorString ''cannot inject empty text''), [])"
    by (simp add: injector_Inject_def)
qed

theorem Inject_backend_chain_witness:
  "injector_Inject onlyWtypeWorks chain3 ''hi'' ''0x1''
     = (None, [(''ydotool'', ''hi'', 7 * Second, ''0x1''), (''wtype'', ''hi'', 4 * Second, ''0x1'')])
   \<and> injector_Inject nothingWorks chain3 ''hi'' ''0x1''
     = (Some (Errorf ''all injection backends failed, last error: ''
                (Some (ErrorString ''clipboard failed''))),
        [(''ydotool'', ''hi'', 7 * Second, ''0x1''), (''wtype'', ''hi'', 4 * Second, ''0x1''),
         (''clipboard'', ''hi'', 3 * Second, ''0x1'')])
   \<and> injector_Inject nothingWorks chain3 [] ''0x1''
     = (Some (ErrorString ''cannot inject empty text''), [])"
proof -
  have less3: "\<And>P. (\<forall>j<3::nat. P j) = (P 0 \<and> P 1 \<and> P 2)"
    by (auto simp: numeral_3_eq_3 numeral_2_eq_2 less_Suc_eq)
  show ?thesis
    using Inject_backend_chain [of "''hi''" 1 chain3 onlyWtypeWorks "''0x1''"]
      Inject_backend_chain [of "''hi''" 0 chain3 nothingWorks "''0x1''"]
    by (simp add: chain3_backends chain3_config less3 callResult_def backendCall_def
        onlyWtypeWorks_def nothingWorks_def)
qed

text \<open>
  Claim C10. The chain built by \<open>NewInjector\<close> is never empty: it consists of the backends of
  the configured names that are \<open>ydotool\<close>, \<open>wtype\<close> or \<open>clipboard\<close>, in their order, and is the
  single clipboard backend when no such name is configured. Hence the error wrapped by the
  all-backends-failed error of \<open>Inject\<close> is never \<open>nil\<close>.
\<close>

theorem NewInjector_chain_nonempty:
  "inj_backends (NewInjector cfg) \<noteq> []
   \<and> map Name (inj_backends (NewInjector cfg)) =
       (if filter (\<lambda>name. name \<in> {''ydotool'', ''wtype'', ''clipboard''}) (inj_Backends cfg) = []
          then [''clipboard'']
        else filter (\<lambda>name. name \<in> {''ydotool'', ''wtype'', ''clipboard''}) (inj_Backends cfg))
   \<and> (filter (\<lambda>name. name \<in> {''ydotool'', ''wtype'', ''clipboard''}) (inj_Backends cfg) = []
        \<longrightarrow> inj_backends (NewInjector cfg) = [NewClipboardBackend])
   \<and> (\<forall>env text w e calls.
         injector_Inject env (NewInjector cfg) text w
           = (Some (Errorf ''all injection backends failed, last error: '' e), calls)
         \<longrightarrow> e \<noteq> None)"
proof (intro conjI allI impI)
  show ne: "inj_backends (NewInjector cfg) \<noteq> []"
    by (simp add: NewInjector_backends)
  have names: "map Name (buildChain (inj_Backends cfg) [])
      = filter (\<lambda>name. name \<in> {''ydotool'', ''wtype'', ''clipboard''}) (inj_Backends cfg)"
    by (simp only: buildChain_map_filter map_Name_map_filter)
  show "map Name (inj_backends (NewInjector cfg)) =
       (if filter (\<lambda>name. name \<in> {''ydotool'', ''wtype'', ''clipboard''}) (inj_Backends cfg) = []
          then [''clipboard'']
        else filter (\<lambda>name. name \<in> {''ydotool'', ''wtype'', ''clipboard''}) (inj_Backends cfg))"
    using names by (auto simp add: NewInjector_backends)
  show "inj_backends (NewInjector cfg) = [NewClipboardBackend]"
    if "filter (\<lambda>name. name \<in> {''ydotool'', ''wtype'', ''clipboard''}) (inj_Backends cfg) = []"
    using that names by (auto simp add: NewInjector_backends)
  show "e \<noteq> None"
    if r: "injector_Inject env (NewInjector cfg) str w
           = (Some (Errorf ''all injection backends failed, last error: '' e), calls)"
    for env str w e calls
  proof (cases "str = []")
    case True
    with r show ?thesis by (simp add: injector_Inject_def)
  next
    case False
    with r have "tryBackends env (NewInjector cfg) str w 0 None
        (inj_backends (NewInjector cfg)) []
        = (Some (Errorf ''all injection backends failed, last error: '' e), calls)"
      by (simp add: injector_Inject_def)
    then show ?thesis
      by (rule tryBackends_error_nonnil) (use ne in simp)
  qed
qed

theorem NewInjector_chain_nonempty_witness:
  "inj_backends (NewInjector \<lparr>inj_Backends = [''xdotool'', ''wtype'', ''paste''],
      inj_YdotoolTimeout = 5 * Second, inj_WtypeTimeout = 4 * Second,
      inj_ClipboardTimeout = 3 * Second\<rparr>) = [NewWtypeBackend]
   \<and> inj_backends (NewInjector \<lparr>inj_Backends = [''xdotool''],
      inj_YdotoolTimeout = 5 * Second, inj_WtypeTimeout = 4 * Second,
      inj_ClipboardTimeout = 3 * Second\<rparr>) = [NewClipboardBackend]
   \<and> injector_Inject nothingWorks (NewInjector \<lparr>inj_Backends = [],
      inj_YdotoolTimeout = 5 * Second, inj_WtypeTimeout = 4 * Second,
      inj_ClipboardTimeout = 3 * Second\<rparr>) ''hi'' ''0x1''
     = (Some (Errorf ''all injection backends failed, last error: ''
          (Some (ErrorString ''clipboard failed''))), [(''clipboard'', ''hi'', 3 * Second, ''0x1'')])
   \<and> Some (ErrorString ''clipboard failed'') \<noteq> None"
  using NewInjector_chain_nonempty [of "\<lparr>inj_Backends = [''xdotool'', ''wtype'', ''paste''],
      inj_YdotoolTimeout = 5 * Second, inj_WtypeTimeout = 4 * Second,
      inj_ClipboardTimeout = 3 * Second\<rparr>"]
    NewInjector_chain_nonempty [of "\<lparr>inj_Backends = [''xdotool''],
      inj_YdotoolTimeout = 5 * Second, inj_WtypeTimeout = 4 * Second,
      inj_ClipboardTimeout = 3 * Second\<rparr>"]
    NewInjector_chain_nonempty [of "\<lparr>inj_Backends = [],
      inj_YdotoolTimeout = 5 * Second, inj_WtypeTimeout = 4 * Second,
      inj_ClipboardTimeout = 3 * Second\<rparr>"]
  by (simp add: NewInjector_def injector_Inject_def nothingWorks_def getTimeout_def)

section \<open>Migration of the legacy injection mode\<close>

text \<open>
  Claim C9. When the decoded configuration has no injection backends, loading sets them from
  the legacy mode: \<open>clipboard\<close>, \<open>type\<close> and \<open>fallback\<close> give their lists, every other mode
  (also the missing one, the empty string) gives the default list.
\<close>

theorem Load_migrates_legacy_mode:
  "Backends (Injection cfg) = [] \<Longrightarrow>
   Backends (Injection (Load_migrate cfg mode)) =
     (if mode = ''clipboard'' then [''clipboard'']
      else if mode = ''type'' then [''wtype'']
      else if mode = ''fallback'' then [''wtype'', ''clipboard'']
      else [''ydotool'', ''wtype'', ''clipboard''])"
  by (simp add: Load_migrate_def migrateInjectionMode_def Let_def)

theorem Load_migrates_legacy_mode_witness:
  "Backends (Injection exampleConfig) = []
   \<and> Backends (Injection (Load_migrate exampleConfig ''fallback'')) = [''wtype'', ''clipboard'']
   \<and> Backends (Injection (Load_migrate exampleConfig ''clipboard'')) = [''clipboard'']
   \<and> Backends (Injection (Load_migrate exampleConfig ''type'')) = [''wtype'']
   \<and> Backends (Injection (Load_migrate exampleConfig [])) = [''ydotool'', ''wtype'', ''clipboard'']
   \<and> Backends (Injection (Load_migrate exampleConfig ''paste'')) = [''ydotool'', ''wtype'', ''clipboard'']"
proof -
  have e: "Backends (Injection exampleConfig) = []"
    by (simp add: exampleConfig_def)
  show ?thesis
    using e Load_migrates_legacy_mode [OF e, of "''fallback''"]
      Load_migrates_legacy_mode [OF e, of "''clipboard''"]
      Load_migrates_legacy_mode [OF e, of "''type''"]
      Load_migrates_legacy_mode [OF e, of "[]"]
      Load_migrates_legacy_mode [OF e, of "''paste''"]
    by simp
qed

section \<open>The session worker\<close>

lemma supervise_append:
  "progress h env p pre = Some q \<Longrightarrow> supervise h env p (pre @ evs) = supervise h env q evs"
  by (induction pre arbitrary: p) (auto split: outcome.splits)

lemma supervise_None_iff: "supervise h env p evs = None \<longleftrightarrow> progress h env p evs \<noteq> None"
  by (induction evs arbitrary: p) (auto split: outcome.splits)

lemma supervise_Done: "DoneEv \<in> set evs \<Longrightarrow> supervise h env p evs \<noteq> None"
  by (induction evs arbitrary: p) (auto split: outcome.splits)

lemma deferred_simps [simp]:
  "status (deferred p) = Idle" "running (deferred p) = False" "errorCh (deferred p) = errorCh p"
  "actionCh (deferred p) = actionCh p" "wg (deferred p) = wg p - 1"
  by (simp_all add: deferred_def setStatus_def)

lemma run_exit:
  "run h env p evs = Some (q, effs) \<Longrightarrow> \<not> running q \<and> status q = Idle"
  by (auto simp: run_def Let_def split: option.splits)

lemma startedPipeline_eq:
  "startedPipeline =
     \<lparr>status = [], actionCh = [], errorCh = [], config = 0, windowAddress = [],
      cancel = Some (WithTimeout Background (300 * Second)), wg = 1, stopOnce = False,
      running = True\<rparr>"
  by (simp add: startedPipeline_def Run_def New_def Let_def setCancel_def exampleHeap_def
      Load_migrate_def migrateInjectionMode_def exampleConfig_def)

lemma progress_status: "progress h env p evs = Some q \<Longrightarrow> status q = status p"
proof (induction evs arbitrary: p)
  case Nil
  then show ?case by simp
next
  case (Cons ev evs)
  then show ?case
    by (cases ev)
      (auto simp: send_def sendError_def Let_def split: list.splits if_splits prod.splits)
qed

lemma progress_running: "progress h env p evs = Some q \<Longrightarrow> running q = running p"
proof (induction evs arbitrary: p)
  case Nil
  then show ?case by simp
next
  case (Cons ev evs)
  then show ?case
    by (cases ev)
      (auto simp: send_def sendError_def Let_def split: list.splits if_splits prod.splits)
qed

text \<open>
  Claim C1. Whenever the worker \<open>run\<close> returns, the running flag is cleared and the status
  is \<open>Idle\<close>. It does return on each of its exit paths: when the recorder fails to start,
  when the transcriber cannot be created or fails to start, when the \<open>select\<close> takes
  \<open>ctx.Done()\<close> (cancellation or deadline), and when it receives an \<open>Inject\<close> action.
\<close>

theorem worker_exit_clears_running_and_status:
  "(\<forall>q effs. run h env p evs = Some (q, effs) \<longrightarrow> \<not> running q \<and> status q = Idle)
   \<and> (recorderStart env \<noteq> None \<longrightarrow> run h env p evs \<noteq> None)
   \<and> (newTranscriber env \<noteq> None \<longrightarrow> run h env p evs \<noteq> None)
   \<and> (transcriberStart env \<noteq> None \<longrightarrow> run h env p evs \<noteq> None)
   \<and> (DoneEv \<in> set evs \<longrightarrow> run h env p evs \<noteq> None)
   \<and> (\<forall>pre post q rest.
         evs = pre @ ActionEv # post \<and> progress h env (atLoop p) pre = Some q
           \<and> actionCh q = Inject # rest
         \<longrightarrow> run h env p evs \<noteq> None)"
proof (intro conjI allI impI)
  show "\<not> running q" if "run h env p evs = Some (q, effs)" for q effs
    using run_exit [OF that] by simp
  show "status q = Idle" if "run h env p evs = Some (q, effs)" for q effs
    using run_exit [OF that] by simp
  show "run h env p evs \<noteq> None" if "recorderStart env \<noteq> None"
    using that by (auto simp: run_def Let_def)
  show "run h env p evs \<noteq> None" if "newTranscriber env \<noteq> None"
    using that by (auto simp: run_def Let_def split: option.splits)
  show "run h env p evs \<noteq> None" if "transcriberStart env \<noteq> None"
    using that by (auto simp: run_def Let_def split: option.splits)
  show "run h env p evs \<noteq> None" if "DoneEv \<in> set evs"
    using supervise_Done [OF that, of h env "atLoop p"]
    by (auto simp: run_def Let_def atLoop_def split: option.splits)
  show "run h env p evs \<noteq> None"
    if a: "evs = pre @ ActionEv # post \<and> progress h env (atLoop p) pre = Some q
           \<and> actionCh q = Inject # rest"
    for pre post q rest
  proof -
    from a have "supervise h env (atLoop p) evs = supervise h env q (ActionEv # post)"
      by (simp add: supervise_append)
    also from a have "\<dots> \<noteq> None"
      by (simp split: prod.splits)
    finally show ?thesis
      by (auto simp: run_def Let_def atLoop_def split: option.splits)
  qed
qed

theorem worker_exit_clears_running_and_status_witness:
  "(\<exists>q effs. run exampleHeap okEnv startedPipeline [FrameEv, DoneEv] = Some (q, effs)
              \<and> \<not> running q \<and> status q = Idle)
   \<and> (\<exists>q effs. run exampleHeap okEnv startedPipeline [SendEv Inject, ActionEv] = Some (q, effs)
              \<and> \<not> running q \<and> status q = Idle)
   \<and> (\<exists>q effs. run exampleHeap failingRecorder startedPipeline [] = Some (q, effs)
              \<and> \<not> running q \<and> status q = Idle)
   \<and> (\<exists>q effs. run exampleHeap noTranscriber startedPipeline [] = Some (q, effs)
              \<and> \<not> running q \<and> status q = Idle)
   \<and> (\<exists>q effs. run exampleHeap failingTranscriber startedPipeline [] = Some (q, effs)
              \<and> \<not> running q \<and> status q = Idle)"
proof -
  have pre: "progress exampleHeap okEnv (atLoop startedPipeline) [SendEv Inject]
      = Some (send (atLoop startedPipeline) Inject)"
    by simp
  have act: "actionCh (send (atLoop startedPipeline) Inject) = Inject # []"
    by (simp add: send_def atLoop_def setStatus_def startedPipeline_eq)
  have 1: "\<exists>q effs. run exampleHeap okEnv startedPipeline [FrameEv, DoneEv] = Some (q, effs)
              \<and> \<not> running q \<and> status q = Idle"
    using worker_exit_clears_running_and_status
      [of exampleHeap okEnv startedPipeline "[FrameEv, DoneEv]"]
    by auto
  have 2: "\<exists>q effs. run exampleHeap okEnv startedPipeline [SendEv Inject, ActionEv] = Some (q, effs)
              \<and> \<not> running q \<and> status q = Idle"
    using worker_exit_clears_running_and_status
      [of exampleHeap okEnv startedPipeline "[SendEv Inject, ActionEv]"] pre act
    by (metis append_Cons append_Nil not_Some_eq prod.collapse)
  have 3: "\<exists>q effs. run exampleHeap failingRecorder startedPipeline [] = Some (q, effs)
              \<and> \<not> running q \<and> status q = Idle"
    using worker_exit_clears_running_and_status [of exampleHeap failingRecorder startedPipeline "[]"]
    by (auto simp: failingRecorder_def)
  have 4: "\<exists>q effs. run exampleHeap noTranscriber startedPipeline [] = Some (q, effs)
              \<and> \<not> running q \<and> status q = Idle"
    using worker_exit_clears_running_and_status [of exampleHeap noTranscriber startedPipeline "[]"]
    by (auto simp: noTranscriber_def)
  have 5: "\<exists>q effs. run exampleHeap failingTranscriber startedPipeline [] = Some (q, effs)
              \<and> \<not> running q \<and> status q = Idle"
    using worker_exit_clears_running_and_status
      [of exampleHeap failingTranscriber startedPipeline "[]"]
    by (auto simp: failingTranscriber_def)
  from 1 2 3 4 5 show ?thesis by blast
qed

text \<open>
  Claim C8. \<open>Run\<close> derives the context of the session with the recording timeout of the
  configuration as its deadline; at the deadline \<open>ctx.Done()\<close> becomes ready. When the worker,
  in its loop, takes that case, it returns: the session ends with status \<open>Idle\<close> and the
  running flag cleared, and the error channel holds exactly the errors it held before (\<open>q\<close> is
  the state in which the worker takes the case).
\<close>

theorem deadline_ends_session_in_Idle_without_error:
  "\<not> running p \<Longrightarrow>
   recorderStart env = None \<Longrightarrow> newTranscriber env = None \<Longrightarrow> transcriberStart env = None \<Longrightarrow>
   progress h env (atLoop (fst (Run h p ctx))) pre = Some q \<Longrightarrow>
   snd (Run h p ctx) = Some (WithTimeout ctx (Timeout (RecordingCfg (h (config p)))))
   \<and> run h env (fst (Run h p ctx)) (pre @ DoneEv # post)
       = Some (deferred q, [RecorderStart, TranscriberStart, TranscriberStop, RecorderStop])
   \<and> status (deferred q) = Idle \<and> \<not> running (deferred q) \<and> errorCh (deferred q) = errorCh q"
proof -
  assume n: "\<not> running p" and e: "recorderStart env = None" "newTranscriber env = None"
    "transcriberStart env = None"
    and pr: "progress h env (atLoop (fst (Run h p ctx))) pre = Some q"
  have c: "snd (Run h p ctx) = Some (WithTimeout ctx (Timeout (RecordingCfg (h (config p)))))"
    using n by (simp add: Run_def Let_def setCancel_def)
  have r: "run h env (fst (Run h p ctx)) (pre @ DoneEv # post)
       = Some (deferred q, [RecorderStart, TranscriberStart, TranscriberStop, RecorderStop])"
    using e pr by (simp add: run_def Let_def supervise_append atLoop_def)
  from c r show ?thesis by simp
qed

theorem deadline_ends_session_in_Idle_without_error_witness:
  "\<not> running (New 0)
   \<and> progress exampleHeap okEnv (atLoop (fst (Run exampleHeap (New 0) Background)))
         [FrameEv, RErrEv someError, FrameEv]
     = Some (sendError (atLoop startedPipeline) ''Recording Error'' ''Recording stream error''
               (Some someError))
   \<and> snd (Run exampleHeap (New 0) Background) = Some (WithTimeout Background (300 * Second))
   \<and> (\<exists>q effs. run exampleHeap okEnv (fst (Run exampleHeap (New 0) Background))
                  [FrameEv, RErrEv someError, FrameEv, DoneEv, FrameEv] = Some (q, effs)
         \<and> status q = Idle \<and> \<not> running q
         \<and> errorCh q = [\<lparr>Title = ''Recording Error'', Message = ''Recording stream error'',
                           Err = Some someError\<rparr>])"
proof -
  have n: "\<not> running (New 0)"
    by (simp add: New_def)
  have pre: "progress exampleHeap okEnv (atLoop (fst (Run exampleHeap (New 0) Background)))
         [FrameEv, RErrEv someError, FrameEv]
     = Some (sendError (atLoop startedPipeline) ''Recording Error'' ''Recording stream error''
               (Some someError))"
    by (simp add: startedPipeline_def)
  have env: "recorderStart okEnv = None" "newTranscriber okEnv = None"
    "transcriberStart okEnv = None"
    by (simp_all add: okEnv_def)
  have ech: "errorCh (sendError (atLoop startedPipeline) ''Recording Error''
                ''Recording stream error'' (Some someError))
      = [\<lparr>Title = ''Recording Error'', Message = ''Recording stream error'',
           Err = Some someError\<rparr>]"
    by (simp add: sendError_def atLoop_def setStatus_def startedPipeline_eq)
  have t: "Timeout (RecordingCfg (exampleHeap (config (New 0)))) = 300 * Second"
    by (simp add: exampleHeap_def Load_migrate_def migrateInjectionMode_def exampleConfig_def
        Let_def)
  show ?thesis
    using deadline_ends_session_in_Idle_without_error [OF n env pre, of "[FrameEv]"]
      n pre ech t
    by simp
qed

text \<open>
  Claim C2, as amended. \<open>handleInjectAction\<close> reads the status when the worker has received
  the action: when it is not \<open>Transcribing\<close>, the handler leaves the pipeline as it is and
  calls no collaborator.
\<close>

theorem handleInjectAction_ignores_unless_Transcribing:
  "status p \<noteq> Transcribing \<Longrightarrow> handleInjectAction h env p = (p, [])"
  by (simp add: handleInjectAction_def)

theorem handleInjectAction_ignores_unless_Transcribing_witness:
  "status recordingPipeline \<noteq> Transcribing
   \<and> handleInjectAction exampleHeap okEnv recordingPipeline = (recordingPipeline, [])"
proof -
  have s: "status recordingPipeline \<noteq> Transcribing"
    by (simp add: recordingPipeline_def setStatus_def Recording_def Transcribing_def)
  show ?thesis
    using s handleInjectAction_ignores_unless_Transcribing [OF s, of exampleHeap okEnv]
    by simp
qed

text \<open>
  Claim C2, as stated, fails. First, a worker that receives \<open>Inject\<close> while the status is
  \<open>Recording\<close> returns from its loop, where a worker that received nothing stays in it; the
  deferred function then sets the status to \<open>Idle\<close> and clears the running flag: the session
  does not continue. Second, an \<open>Inject\<close> sent to the mailbox of a new pipeline, whose status
  is not \<open>Transcribing\<close>, is buffered; the worker receives it in its loop, in state
  \<open>Transcribing\<close>, and injects the text, where the same schedule without the send leaves the
  worker in its loop.
\<close>

theorem Inject_outside_Transcribing_not_ignored:
  "status recordingPipeline = Recording \<and> Recording \<noteq> Transcribing
   \<and> running recordingPipeline \<and> actionCh recordingPipeline = [Inject]
   \<and> selectStep exampleHeap okEnv recordingPipeline ActionEv
       = Exit (recordingPipeline\<lparr>actionCh := []\<rparr>) []
   \<and> supervise exampleHeap okEnv recordingPipeline [ActionEv, FrameEv]
       = Some (recordingPipeline\<lparr>actionCh := []\<rparr>, [])
   \<and> supervise exampleHeap okEnv (recordingPipeline\<lparr>actionCh := []\<rparr>) [FrameEv] = None
   \<and> status (deferred (recordingPipeline\<lparr>actionCh := []\<rparr>)) = Idle \<and> Idle \<noteq> Recording
   \<and> \<not> running (deferred (recordingPipeline\<lparr>actionCh := []\<rparr>))
   \<and> status (send (New 0) Inject) \<noteq> Transcribing
   \<and> run exampleHeap okEnv (fst (Run exampleHeap (send (New 0) Inject) Background)) [ActionEv]
       = Some (\<lparr>status = Idle, actionCh = [], errorCh = [], config = 0, windowAddress = [],
                 cancel = Some (WithTimeout Background (300 * Second)), wg = 0,
                 stopOnce = False, running = False\<rparr>,
               [RecorderStart, TranscriberStart, RecorderStop, TranscriberStop,
                GetFinalTranscription, BackendInject (''wtype'', ''hello'', 5 * Second, []),
                TranscriberStop, RecorderStop])
   \<and> run exampleHeap okEnv (fst (Run exampleHeap (New 0) Background)) [ActionEv] = None"
proof -
  have cfg: "exampleHeap 0 = exampleConfig\<lparr>Injection :=
      \<lparr>Backends = [''wtype'', ''clipboard''], YdotoolTimeout = 5 * Second,
       WtypeTimeout = 5 * Second, ClipboardTimeout = 3 * Second\<rparr>\<rparr>"
    by (simp add: exampleHeap_def Load_migrate_def migrateInjectionMode_def Let_def
        exampleConfig_def)
  have inj: "injector_Inject onlyWtypeWorks (NewInjector (ToInjectionConfig (exampleHeap 0)))
      ''hello'' [] = (None, [(''wtype'', ''hello'', 5 * Second, [])])"
    by (simp add: cfg ToInjectionConfig_def NewInjector_def injector_Inject_def getTimeout_def
        onlyWtypeWorks_def)
  have early: "fst (Run exampleHeap (send (New 0) Inject) Background)
      = startedPipeline\<lparr>actionCh := [Inject]\<rparr>"
    by (simp add: startedPipeline_eq Run_def New_def send_def Let_def setCancel_def cfg
        exampleConfig_def)
  have 1: "run exampleHeap okEnv (startedPipeline\<lparr>actionCh := [Inject]\<rparr>) [ActionEv]
       = Some (\<lparr>status = Idle, actionCh = [], errorCh = [], config = 0, windowAddress = [],
                 cancel = Some (WithTimeout Background (300 * Second)), wg = 0,
                 stopOnce = False, running = False\<rparr>,
               [RecorderStart, TranscriberStart, RecorderStop, TranscriberStop,
                GetFinalTranscription, BackendInject (''wtype'', ''hello'', 5 * Second, []),
                TranscriberStop, RecorderStop])"
    by (simp add: run_def Let_def okEnv_def setStatus_def startedPipeline_eq
        handleInjectAction_def inj deferred_def)
  have 2: "run exampleHeap okEnv (fst (Run exampleHeap (New 0) Background)) [ActionEv] = None"
    by (simp add: run_def Let_def okEnv_def setStatus_def startedPipeline_eq
        startedPipeline_def [symmetric])
  have 3: "status (send (New 0) Inject) \<noteq> Transcribing"
    by (simp add: send_def New_def Transcribing_def)
  have 4: "status recordingPipeline = Recording \<and> Recording \<noteq> Transcribing
   \<and> running recordingPipeline \<and> actionCh recordingPipeline = [Inject]
   \<and> selectStep exampleHeap okEnv recordingPipeline ActionEv
       = Exit (recordingPipeline\<lparr>actionCh := []\<rparr>) []
   \<and> supervise exampleHeap okEnv recordingPipeline [ActionEv, FrameEv]
       = Some (recordingPipeline\<lparr>actionCh := []\<rparr>, [])
   \<and> supervise exampleHeap okEnv (recordingPipeline\<lparr>actionCh := []\<rparr>) [FrameEv] = None
   \<and> status (deferred (recordingPipeline\<lparr>actionCh := []\<rparr>)) = Idle \<and> Idle \<noteq> Recording
   \<and> \<not> running (deferred (recordingPipeline\<lparr>actionCh := []\<rparr>))"
    by (simp add: recordingPipeline_def setStatus_def startedPipeline_eq handleInjectAction_def
        Recording_def Transcribing_def Idle_def Inject_def deferred_def)
  from 1 2 3 4 show ?thesis
    by (simp only: early) simp
qed

section \<open>Starting a session\<close>

text \<open>
  Claim C4. A second \<open>Run\<close> on the pipeline a first \<open>Run\<close> returns changes nothing and starts
  no worker, whatever context it is given; the same holds for every state \<open>q\<close> the worker of
  the first call reaches while it is in its loop. When the pipeline was not running, the first
  call starts the worker, so that the two calls start exactly one.
\<close>

theorem Run_idempotent:
  "Run h (fst (Run h p ctx)) ctx' = (fst (Run h p ctx), None)
   \<and> (progress h env (atLoop (fst (Run h p ctx))) evs = Some q \<longrightarrow> Run h q ctx' = (q, None))
   \<and> (\<not> running p \<longrightarrow>
        snd (Run h p ctx) = Some (WithTimeout ctx (Timeout (RecordingCfg (h (config p)))))
        \<and> length (filter (\<lambda>w. w \<noteq> None)
                    [snd (Run h p ctx), snd (Run h (fst (Run h p ctx)) ctx')]) = 1)"
proof (intro conjI impI)
  show "Run h (fst (Run h p ctx)) ctx' = (fst (Run h p ctx), None)"
    by (simp add: Run_def Let_def setCancel_def)
  show "Run h q ctx' = (q, None)"
    if "progress h env (atLoop (fst (Run h p ctx))) evs = Some q"
  proof -
    have "running (atLoop (fst (Run h p ctx)))"
      by (simp add: Run_def Let_def setCancel_def atLoop_def setStatus_def)
    with progress_running [OF that] show ?thesis
      by (simp add: Run_def)
  qed
  show "snd (Run h p ctx) = Some (WithTimeout ctx (Timeout (RecordingCfg (h (config p)))))"
    if "\<not> running p"
    using that by (simp add: Run_def Let_def setCancel_def)
  show "length (filter (\<lambda>w. w \<noteq> None)
                    [snd (Run h p ctx), snd (Run h (fst (Run h p ctx)) ctx')]) = 1"
    if "\<not> running p"
    using that by (simp add: Run_def Let_def setCancel_def)
qed

theorem Run_idempotent_witness:
  "\<not> running (New 0)
   \<and> Run exampleHeap (fst (Run exampleHeap (New 0) Background)) Background
       = (startedPipeline, None)
   \<and> progress exampleHeap okEnv (atLoop startedPipeline) [FrameEv, SendEv Cancel, ActionEv]
       = Some (atLoop startedPipeline)
   \<and> Run exampleHeap (atLoop startedPipeline) Background = (atLoop startedPipeline, None)
   \<and> snd (Run exampleHeap (New 0) Background) = Some (WithTimeout Background (300 * Second))
   \<and> length (filter (\<lambda>w. w \<noteq> None)
                [snd (Run exampleHeap (New 0) Background),
                 snd (Run exampleHeap (fst (Run exampleHeap (New 0) Background)) Background)]) = 1"
proof -
  have n: "\<not> running (New 0)"
    by (simp add: New_def)
  have t: "Timeout (RecordingCfg (exampleHeap (config (New 0)))) = 300 * Second"
    by (simp add: exampleHeap_def Load_migrate_def migrateInjectionMode_def exampleConfig_def
        Let_def)
  have p: "progress exampleHeap okEnv (atLoop startedPipeline) [FrameEv, SendEv Cancel, ActionEv]
       = Some (atLoop startedPipeline)"
    by (simp add: send_def atLoop_def setStatus_def startedPipeline_eq Cancel_def Inject_def)
  show ?thesis
    using n t p Run_idempotent [of exampleHeap "New 0" Background Background okEnv
        "[FrameEv, SendEv Cancel, ActionEv]" "atLoop startedPipeline"]
    by (simp add: startedPipeline_def)
qed

section \<open>The lockfile check\<close>

lemma digit_cases: "(d::nat) < 10 \<Longrightarrow> d = 0 \<or> d = 1 \<or> d = 2 \<or> d = 3 \<or> d = 4 \<or> d = 5 \<or> d = 6 \<or> d = 7 \<or> d = 8 \<or> d = 9"
  by arith

lemma digit_char:
  assumes "(d::nat) < 10"
  shows "isDigit (char_of (48 + d))" "digitVal (char_of (48 + d)) = d"
    "char_of (48 + d) \<noteq> CHR ''-''" "char_of (48 + d) \<noteq> CHR ''+''"
proof -
  have m: "(48 + d) mod 256 = 48 + d"
    using assms by simp
  show "digitVal (char_of (48 + d)) = d"
    by (simp add: digitVal_def m)
  from digit_cases [OF assms] show "isDigit (char_of (48 + d))"
    by (auto simp: isDigit_def char_of_eq_iff take_bit_eq_mod)
  from digit_cases [OF assms] show "char_of (48 + d) \<noteq> CHR ''-''"
    by (auto simp: char_of_eq_iff take_bit_eq_mod)
  from digit_cases [OF assms] show "char_of (48 + d) \<noteq> CHR ''+''"
    by (auto simp: char_of_eq_iff take_bit_eq_mod)
qed

lemma natDigits_props:
  "natDigits n \<noteq> [] \<and> list_all isDigit (natDigits n)
   \<and> foldl (\<lambda>n c. n * 10 + digitVal c) 0 (natDigits n) = n
   \<and> hd (natDigits n) \<noteq> CHR ''-'' \<and> hd (natDigits n) \<noteq> CHR ''+''"
proof (induction n rule: natDigits.induct)
  case (1 n)
  show ?case
  proof (cases "n < 10")
    case True
    then show ?thesis
      by (simp add: natDigits.simps [of n] digit_char)
  next
    case False
    have lt: "n mod 10 < 10" by simp
    from False 1 show ?thesis
      by (simp add: natDigits.simps [of n] digit_char [OF lt])
  qed
qed

lemma Atoi_range: "Atoi s = Some v \<Longrightarrow> - (2 ^ 63) \<le> v \<and> v \<le> 2 ^ 63 - 1"
  by (auto simp: Atoi_def Let_def split: if_splits list.splits prod.splits)

lemma Atoi_Itoa: "- (2 ^ 63) \<le> v \<Longrightarrow> v \<le> 2 ^ 63 - 1 \<Longrightarrow> Atoi (Itoa v) = Some v"
proof -
  assume r: "- (2 ^ 63) \<le> v" "v \<le> 2 ^ 63 - 1"
  show ?thesis
  proof (cases "v < 0")
    case True
    obtain ds where ds: "natDigits (nat (- v)) = ds" by simp
    with natDigits_props [of "nat (- v)"] have p: "ds \<noteq> []" "list_all isDigit ds"
      "foldl (\<lambda>n c. n * 10 + digitVal c) 0 ds = nat (- v)"
      by simp_all
    from True r p show ?thesis
      by (simp add: Itoa_def Atoi_def ds)
  next
    case False
    obtain ds where ds: "natDigits (nat v) = ds" by simp
    with natDigits_props [of "nat v"] have p: "ds \<noteq> []" "list_all isDigit ds"
      "foldl (\<lambda>n c. n * 10 + digitVal c) 0 ds = nat v" "hd ds \<noteq> CHR ''-''" "hd ds \<noteq> CHR ''+''"
      by simp_all
    then obtain c cs where c: "ds = c # cs" by (cases ds) auto
    from False r p c show ?thesis
      by (simp add: Itoa_def Atoi_def ds)
  qed
qed

lemma Atoi_invalid: "Atoi ''invalid'' = None"
  by (simp add: Atoi_def isDigit_def)

lemma Atoi_4242: "Atoi ''4242'' = Some 4242"
  by (simp add: Atoi_def isDigit_def digitVal_def)

lemma Atoi_nl: "Atoi (''4242'' @ [NL]) = None"
  by (simp add: Atoi_def isDigit_def NL_def)

text \<open>
  Claim C5, as amended. \<open>checkExisting\<close> returns no error when reading the lockfile fails
  because there is none, and returns an error when reading fails for another reason. When the
  lockfile has been read and its contents are not a decimal process identifier, or are one
  whose process fails the probe (\<open>os.FindProcess\<close> or the signal 0 gives an error), it calls
  \<open>os.Remove\<close> on the lockfile and returns no error; the lockfile is gone afterwards if the
  removal did not fail, and the file system is as before if it did. When the process is
  reachable, it fails with an error whose text ends in the decimal numeral of the process
  identifier, which reads back as that identifier.
\<close>

theorem checkExisting_cases:
  "(readError fs (path pm) = None \<and> files fs (path pm) = None \<longrightarrow>
      checkExisting ps pm fs = (fs, None))
   \<and> (readError fs (path pm) = Some e \<longrightarrow>
        checkExisting ps pm fs = (fs, Some (Errorf ''error reading PID file: '' (Some e))))
   \<and> (readError fs (path pm) = None \<and> files fs (path pm) = Some s \<and> Atoi s = None \<longrightarrow>
        checkExisting ps pm fs = (fst (os_Remove fs (path pm)), None)
        \<and> (removeError fs (path pm) = None \<longrightarrow>
             fst (checkExisting ps pm fs) = fs\<lparr>files := (files fs)(path pm := None)\<rparr>)
        \<and> (removeError fs (path pm) \<noteq> None \<longrightarrow> fst (checkExisting ps pm fs) = fs))
   \<and> (readError fs (path pm) = None \<and> files fs (path pm) = Some s \<and> Atoi s = Some pid
        \<and> (FindProcess ps pid \<noteq> None \<or> Signal0 ps pid \<noteq> None) \<longrightarrow>
        checkExisting ps pm fs = (fst (os_Remove fs (path pm)), None)
        \<and> (removeError fs (path pm) = None \<longrightarrow>
             fst (checkExisting ps pm fs) = fs\<lparr>files := (files fs)(path pm := None)\<rparr>)
        \<and> (removeError fs (path pm) \<noteq> None \<longrightarrow> fst (checkExisting ps pm fs) = fs))
   \<and> (readError fs (path pm) = None \<and> files fs (path pm) = Some s \<and> Atoi s = Some pid
        \<and> FindProcess ps pid = None \<and> Signal0 ps pid = None \<longrightarrow>
        checkExisting ps pm fs
          = (fs, Some (ErrorString (''daemon already running with PID '' @ Itoa pid)))
        \<and> Atoi (Itoa pid) = Some pid)"
proof (intro conjI impI)
  assume "readError fs (path pm) = None \<and> files fs (path pm) = None"
  then show "checkExisting ps pm fs = (fs, None)"
    by (simp add: checkExisting_def os_ReadFile_def)
next
  assume "readError fs (path pm) = Some e"
  then show "checkExisting ps pm fs = (fs, Some (Errorf ''error reading PID file: '' (Some e)))"
    by (simp add: checkExisting_def os_ReadFile_def)
next
  assume a: "readError fs (path pm) = None \<and> files fs (path pm) = Some s \<and> Atoi s = None"
  then show c: "checkExisting ps pm fs = (fst (os_Remove fs (path pm)), None)"
    by (simp add: checkExisting_def os_ReadFile_def removeStaleFile_def)
  show "fst (checkExisting ps pm fs) = fs\<lparr>files := (files fs)(path pm := None)\<rparr>"
    if "removeError fs (path pm) = None"
    using a that by (simp add: c os_Remove_def)
  show "fst (checkExisting ps pm fs) = fs" if "removeError fs (path pm) \<noteq> None"
    using a that by (auto simp: c os_Remove_def)
next
  assume a: "readError fs (path pm) = None \<and> files fs (path pm) = Some s \<and> Atoi s = Some pid
        \<and> (FindProcess ps pid \<noteq> None \<or> Signal0 ps pid \<noteq> None)"
  then have "\<not> isProcessAlive ps pid"
    by (auto simp: isProcessAlive_def split: option.splits)
  with a show c: "checkExisting ps pm fs = (fst (os_Remove fs (path pm)), None)"
    by (simp add: checkExisting_def os_ReadFile_def removeStaleFile_def)
  show "fst (checkExisting ps pm fs) = fs\<lparr>files := (files fs)(path pm := None)\<rparr>"
    if "removeError fs (path pm) = None"
    using a that by (simp add: c os_Remove_def)
  show "fst (checkExisting ps pm fs) = fs" if "removeError fs (path pm) \<noteq> None"
    using a that by (auto simp: c os_Remove_def)
next
  assume a: "readError fs (path pm) = None \<and> files fs (path pm) = Some s \<and> Atoi s = Some pid
        \<and> FindProcess ps pid = None \<and> Signal0 ps pid = None"
  then have "isProcessAlive ps pid"
    by (simp add: isProcessAlive_def)
  with a show "checkExisting ps pm fs
          = (fs, Some (ErrorString (''daemon already running with PID '' @ Itoa pid)))"
    by (simp add: checkExisting_def os_ReadFile_def)
  from a Atoi_range [of s pid] show "Atoi (Itoa pid) = Some pid"
    by (simp add: Atoi_Itoa)
qed

theorem checkExisting_cases_witness:
  "checkExisting (onlyPid 4242) \<lparr>path = lockPath\<rparr>
       \<lparr>files = Map.empty, readError = (\<lambda>name. None), removeError = (\<lambda>name. None)\<rparr>
     = (\<lparr>files = Map.empty, readError = (\<lambda>name. None), removeError = (\<lambda>name. None)\<rparr>, None)
   \<and> checkExisting (onlyPid 4242) \<lparr>path = lockPath\<rparr> nodirfs
     = (nodirfs, Some (Errorf ''error reading PID file: '' (Some (ErrorString ''not a directory''))))
   \<and> checkExisting (onlyPid 4242) \<lparr>path = lockPath\<rparr> (lockfs ''invalid'')
     = ((lockfs ''invalid'')\<lparr>files := Map.empty\<rparr>, None)
   \<and> checkExisting (onlyPid 4242) \<lparr>path = lockPath\<rparr> (stuckfs ''invalid'')
     = (stuckfs ''invalid'', None)
   \<and> checkExisting (onlyPid 1) \<lparr>path = lockPath\<rparr> (lockfs ''4242'')
     = ((lockfs ''4242'')\<lparr>files := Map.empty\<rparr>, None)
   \<and> checkExisting (onlyPid 1) \<lparr>path = lockPath\<rparr> (stuckfs ''4242'') = (stuckfs ''4242'', None)
   \<and> checkExisting (onlyPid 4242) \<lparr>path = lockPath\<rparr> (lockfs ''4242'')
       = (lockfs ''4242'', Some (ErrorString ''daemon already running with PID 4242''))
   \<and> Atoi ''4242'' = Some 4242"
proof -
  let ?pm = "\<lparr>path = lockPath\<rparr>"
  have f: "\<And>c. readError (lockfs c) (path ?pm) = None \<and> files (lockfs c) (path ?pm) = Some c
      \<and> removeError (lockfs c) (path ?pm) = None
      \<and> (lockfs c)\<lparr>files := (files (lockfs c))(path ?pm := None)\<rparr>
          = (lockfs c)\<lparr>files := Map.empty\<rparr>"
    by (simp add: lockfs_def)
  have g: "\<And>c. readError (stuckfs c) (path ?pm) = None \<and> files (stuckfs c) (path ?pm) = Some c
      \<and> removeError (stuckfs c) (path ?pm) \<noteq> None"
    by (simp add: stuckfs_def lockfs_def)
  have dead: "Signal0 (onlyPid 1) 4242 \<noteq> None"
    by (simp add: onlyPid_def)
  have live: "FindProcess (onlyPid 4242) 4242 = None \<and> Signal0 (onlyPid 4242) 4242 = None"
    by (simp add: onlyPid_def)
  have i: "Itoa 4242 = ''4242''"
    by (simp add: Itoa_def natDigits.simps [of 4242] natDigits.simps [of 424]
        natDigits.simps [of 42] natDigits.simps [of 4] char_of_eq_iff take_bit_eq_mod)
  have 1: "checkExisting (onlyPid 4242) ?pm
       \<lparr>files = Map.empty, readError = (\<lambda>name. None), removeError = (\<lambda>name. None)\<rparr>
     = (\<lparr>files = Map.empty, readError = (\<lambda>name. None), removeError = (\<lambda>name. None)\<rparr>, None)"
    using checkExisting_cases [of "\<lparr>files = Map.empty, readError = (\<lambda>name. None),
          removeError = (\<lambda>name. None)\<rparr>" ?pm "onlyPid 4242"]
    by simp
  have 2: "checkExisting (onlyPid 4242) ?pm nodirfs
     = (nodirfs, Some (Errorf ''error reading PID file: '' (Some (ErrorString ''not a directory''))))"
    using checkExisting_cases [of nodirfs ?pm "onlyPid 4242" "ErrorString ''not a directory''"]
    by (simp add: nodirfs_def)
  have 3: "checkExisting (onlyPid 4242) ?pm (lockfs ''invalid'')
     = ((lockfs ''invalid'')\<lparr>files := Map.empty\<rparr>, None)"
    using checkExisting_cases [of "lockfs ''invalid''" ?pm "onlyPid 4242" _ "''invalid''"]
      f [of "''invalid''"] Atoi_invalid
    by (metis prod.collapse snd_conv)
  have 4: "checkExisting (onlyPid 4242) ?pm (stuckfs ''invalid'') = (stuckfs ''invalid'', None)"
    using checkExisting_cases [of "stuckfs ''invalid''" ?pm "onlyPid 4242" _ "''invalid''"]
      g [of "''invalid''"] Atoi_invalid
    by (metis prod.collapse snd_conv)
  have 5: "checkExisting (onlyPid 1) ?pm (lockfs ''4242'')
     = ((lockfs ''4242'')\<lparr>files := Map.empty\<rparr>, None)"
    using checkExisting_cases [of "lockfs ''4242''" ?pm "onlyPid 1" _ "''4242''" 4242]
      f [of "''4242''"] Atoi_4242 dead
    by (metis prod.collapse snd_conv)
  have 6: "checkExisting (onlyPid 1) ?pm (stuckfs ''4242'') = (stuckfs ''4242'', None)"
    using checkExisting_cases [of "stuckfs ''4242''" ?pm "onlyPid 1" _ "''4242''" 4242]
      g [of "''4242''"] Atoi_4242 dead
    by (metis prod.collapse snd_conv)
  have 7: "checkExisting (onlyPid 4242) ?pm (lockfs ''4242'')
       = (lockfs ''4242'', Some (ErrorString ''daemon already running with PID 4242''))
     \<and> Atoi ''4242'' = Some 4242"
    using checkExisting_cases [of "lockfs ''4242''" ?pm "onlyPid 4242" _ "''4242''" 4242]
      f [of "''4242''"] Atoi_4242 live
    by (simp add: i)
  from 1 2 3 4 5 6 7 show ?thesis
    by blast
qed

text \<open>
  Claim C5, as stated, fails in two places. Where the lockfile cannot be removed,
  \<open>checkExisting\<close> returns no error on the unparseable lockfile, and the lockfile is still
  there. And where there is no lockfile but reading fails for another reason than that,
  \<open>checkExisting\<close> returns an error.
\<close>

theorem checkExisting_failed_removal:
  "files (stuckfs ''invalid'') lockPath = Some ''invalid''
   \<and> Atoi ''invalid'' = None
   \<and> checkExisting (onlyPid 4242) \<lparr>path = lockPath\<rparr> (stuckfs ''invalid'')
       = (stuckfs ''invalid'', None)
   \<and> files (fst (checkExisting (onlyPid 4242) \<lparr>path = lockPath\<rparr> (stuckfs ''invalid''))) lockPath
       = Some ''invalid''
   \<and> files nodirfs lockPath = None
   \<and> checkExisting (onlyPid 4242) \<lparr>path = lockPath\<rparr> nodirfs
       = (nodirfs, Some (Errorf ''error reading PID file: '' (Some (ErrorString ''not a directory''))))"
  by (simp add: checkExisting_def os_ReadFile_def os_Remove_def removeStaleFile_def stuckfs_def
      lockfs_def nodirfs_def Atoi_invalid)

section \<open>The command handler\<close>

lemma ReadString_nonempty: "ReadString sent endErr = (line, None) \<Longrightarrow> line \<noteq> []"
  by (auto simp: ReadString_def split: if_splits)

lemma ReadString_hd: "NL \<in> set sent \<Longrightarrow> \<exists>rest. ReadString sent endErr = (hd sent # rest, None)"
  by (cases sent) (auto simp: ReadString_def)

lemma handle_never_ERR_empty:
  "handle env d sent endErr = Some (d', resp) \<Longrightarrow> resp \<noteq> ''ERR empty'' @ [NL]"
proof -
  assume h: "handle env d sent endErr = Some (d', resp)"
  obtain line err where r: "ReadString sent endErr = (line, err)"
    by (cases "ReadString sent endErr")
  show ?thesis
  proof (cases err)
    case (Some e)
    with h r show ?thesis by (auto simp: handle_def)
  next
    case None
    with r have "line \<noteq> []" by (auto dest: ReadString_nonempty)
    then obtain cmd rest where l: "line = cmd # rest" by (cases line) auto
    with h r None show ?thesis
      by (auto simp: handle_def Let_def split: if_splits option.splits)
  qed
qed

lemma handle_unknown_command:
  "NL \<in> set sent \<Longrightarrow> hd sent \<notin> set ''tcsvqm'' \<Longrightarrow>
   handle env d sent endErr = Some (d, ''ERR unknown='' @ quoted env (hd sent) @ [NL])"
proof -
  assume a: "NL \<in> set sent" and b: "hd sent \<notin> set ''tcsvqm''"
  from ReadString_hd [OF a] obtain rest where "ReadString sent endErr = (hd sent # rest, None)"
    by blast
  with b show ?thesis
    by (simp add: handle_def)
qed

text \<open>
  Claim C3. The handler is meant to answer the empty request line with \<open>ERR empty\<close>, and it
  does not: \<open>ReadString\<close> returns the line with its newline, so the line is never empty when
  there is no read error. The request line that consists of the newline alone is answered as
  the unknown command \<open>newline\<close>, and a connection closed without a byte sent is answered
  with the read error. (The other half of the claim holds: see \<open>handle_unknown_command\<close>.)
\<close>

theorem handle_empty_request_line:
  "handle env d [NL] endErr = Some (d, ''ERR unknown='' @ quoted env NL @ [NL])
   \<and> ''ERR unknown='' @ quoted env NL @ [NL] \<noteq> ''ERR empty'' @ [NL]
   \<and> handle env d [] EOF = Some (d, ''ERR read_error: EOF'' @ [NL])"
  by (simp add: handle_def ReadString_def NL_def EOF_def)

section \<open>The mode override\<close>

lemma getConfigWithModeOverride_frame:
  "getConfigWithModeOverride d = (d', c) \<Longrightarrow>
   (\<forall>a<nextAddr d. store d' a = store d a) \<and> nextAddr d \<le> nextAddr d'
   \<and> d_pipeline d' = d_pipeline d \<and> configMgr d' = configMgr d
   \<and> modeOverride d' = modeOverride d \<and> cancelled d' = cancelled d
   \<and> (c = configMgr d \<or> c = nextAddr d) \<and> (configMgr d < nextAddr d \<longrightarrow> c < nextAddr d')"
  by (auto simp: getConfigWithModeOverride_def Let_def split: if_splits)

lemma toggle_frame:
  assumes "toggle env d = Some d'"
  shows "(\<forall>a<nextAddr d. store d' a = store d a) \<and> nextAddr d \<le> nextAddr d'
         \<and> configMgr d' = configMgr d \<and> (allocated d \<longrightarrow> allocated d')"
proof -
  obtain d1 c where g: "getConfigWithModeOverride d = (d1, c)"
    by (cases "getConfigWithModeOverride d")
  note f = getConfigWithModeOverride_frame [OF g]
  have cfgRun: "\<And>h p ctx. config (fst (Run h p ctx)) = config p"
    by (simp add: Run_def Let_def setCancel_def)
  show ?thesis
  proof (cases "daemon_status d = Idle")
    case True
    with assms g have d': "d' = d1\<lparr>d_pipeline := Some (fst (Run (store d1)
        (if activeWindow env \<noteq> [] then SetWindowAddress (New c) (activeWindow env) else New c)
        d_ctx))\<rparr>"
      by (simp add: toggle_def Let_def)
    show ?thesis
      using f by (auto simp: d' allocated_def cfgRun New_def SetWindowAddress_def)
  next
    case False
    with assms show ?thesis
      by (auto simp: toggle_def Let_def stopPipeline_def allocated_def
          split: if_splits option.splits)
  qed
qed

lemma handle_frame:
  assumes "handle env d sent endErr = Some (d', resp)"
  shows "(\<forall>a<nextAddr d. store d' a = store d a) \<and> nextAddr d \<le> nextAddr d'
         \<and> configMgr d' = configMgr d \<and> (allocated d \<longrightarrow> allocated d')"
proof -
  obtain line err where r: "ReadString sent endErr = (line, err)"
    by (cases "ReadString sent endErr")
  show ?thesis
  proof (cases err)
    case (Some e)
    with assms r show ?thesis by (auto simp: handle_def)
  next
    case None
    show ?thesis
    proof (cases line)
      case Nil
      with assms r None show ?thesis by (auto simp: handle_def)
    next
      case (Cons cmd rest)
      show ?thesis
      proof (cases "cmd = CHR ''t''")
        case True
        with assms r None Cons obtain d1 where "toggle env d = Some d1" "d' = d1"
          by (auto simp: handle_def split: option.splits)
        with toggle_frame [of env d d1] show ?thesis by simp
      next
        case False
        with assms r None Cons show ?thesis
          by (auto simp: handle_def Let_def cancelPipeline_def stopPipeline_def
              setModeOverride_def allocated_def split: if_splits option.splits)
      qed
    qed
  qed
qed

lemma Manager_reload_frame:
  "(\<forall>a<nextAddr d. store (Manager_reload d parsed) a = store d a)
   \<and> (allocated d \<longrightarrow> allocated (Manager_reload d parsed))"
  by (cases parsed)
    (auto simp: Manager_reload_def onConfigReload_def stopPipeline_def allocated_def)

lemma trimLeading_stop: "runeWidth encs s = 0 \<Longrightarrow> trimLeading encs s = s"
  by (simp add: trimLeading.simps [of encs s])

lemma trimLeading_step:
  "runeWidth encs (c # s) = Suc n \<Longrightarrow> trimLeading encs (c # s) = trimLeading encs (drop n s)"
  by (simp add: trimLeading.simps [of encs "c # s"])

lemma TrimSpace_mode:
  "TrimSpace ('':raw'' @ [NL]) = '':raw''" "TrimSpace ('':llm'' @ [NL]) = '':llm''"
  by (simp_all add: TrimSpace_def NL_def spaceRunes_def runeWidth_def trimLeading_stop
      trimLeading_step [where n = 0])

lemma handle_set_mode:
  "mode = ''raw'' \<or> mode = ''llm'' \<Longrightarrow>
   handle env d (''m:'' @ mode @ [NL]) endErr
     = Some (setModeOverride d mode, ''OK mode='' @ mode @ [NL])"
proof -
  assume "mode = ''raw'' \<or> mode = ''llm''"
  then show ?thesis
  proof
    assume m: "mode = ''raw''"
    have "ReadString (''m:'' @ ''raw'' @ [NL]) endErr = (''m:'' @ ''raw'' @ [NL], None)"
      by (simp add: ReadString_def NL_def)
    then show ?thesis
      using TrimSpace_mode(1) by (simp add: m handle_def HasPrefix_def TrimPrefix_def)
  next
    assume m: "mode = ''llm''"
    have "ReadString (''m:'' @ ''llm'' @ [NL]) endErr = (''m:'' @ ''llm'' @ [NL], None)"
      by (simp add: ReadString_def NL_def)
    then show ?thesis
      using TrimSpace_mode(2) by (simp add: m handle_def HasPrefix_def TrimPrefix_def)
  qed
qed

lemma toggle_Idle_with_override:
  "modeOverride d \<noteq> [] \<Longrightarrow> daemon_status d = Idle \<Longrightarrow>
   \<exists>d' p. toggle env d = Some d' \<and> d_pipeline d' = Some p \<and> config p = nextAddr d
     \<and> store d' (config p)
         = (store d (configMgr d))
             \<lparr>Processing := (Processing (store d (configMgr d)))\<lparr>Mode := modeOverride d\<rparr>\<rparr>"
  by (simp add: toggle_def Let_def getConfigWithModeOverride_def Run_def setCancel_def New_def
      SetWindowAddress_def)

lemma exampleHeap_mode: "Mode (Processing (exampleHeap a)) = ''raw''"
  by (simp add: exampleHeap_def Load_migrate_def migrateInjectionMode_def Let_def
      exampleConfig_def)

lemma busyDaemon_facts:
  "allocated busyDaemon" "d_pipeline busyDaemon = Some (atLoop startedPipeline)"
  "config (atLoop startedPipeline) = 0" "store busyDaemon = exampleHeap"
  "daemon_status busyDaemon = Transcribing"
  by (simp_all add: busyDaemon_def idleDaemon_def allocated_def atLoop_def setStatus_def
      startedPipeline_eq daemon_status_def)

text \<open>
  Claim C7. The command \<open>m:raw\<close> or \<open>m:llm\<close> sets the override and changes neither the store
  of configurations nor the pipeline. With an override set, a toggle of the idle daemon
  creates a pipeline whose configuration is a copy of the current one with the mode of the
  override. No command, and no reload of the configuration (as modelled from the spec),
  changes the configuration that the pipeline of the daemon points to.
\<close>

theorem mode_override_only_for_new_sessions:
  "(mode = ''raw'' \<or> mode = ''llm'' \<longrightarrow>
      handle env d (''m:'' @ mode @ [NL]) endErr
        = Some (setModeOverride d mode, ''OK mode='' @ mode @ [NL])
      \<and> modeOverride (setModeOverride d mode) = mode
      \<and> store (setModeOverride d mode) = store d
      \<and> d_pipeline (setModeOverride d mode) = d_pipeline d)
   \<and> (modeOverride d \<noteq> [] \<and> daemon_status d = Idle \<longrightarrow>
        (\<exists>d' p. toggle env d = Some d' \<and> d_pipeline d' = Some p
           \<and> Mode (Processing (store d' (config p))) = modeOverride d
           \<and> store d' (config p)
               = (store d (configMgr d))
                   \<lparr>Processing := (Processing (store d (configMgr d)))\<lparr>Mode := modeOverride d\<rparr>\<rparr>))
   \<and> (\<forall>p sent d' resp.
         allocated d \<and> d_pipeline d = Some p \<and> handle env d sent endErr = Some (d', resp)
         \<longrightarrow> store d' (config p) = store d (config p))
   \<and> (\<forall>p parsed.
         allocated d \<and> d_pipeline d = Some p
         \<longrightarrow> store (Manager_reload d parsed) (config p) = store d (config p))"
proof (intro conjI impI allI)
  assume m: "mode = ''raw'' \<or> mode = ''llm''"
  show "handle env d (''m:'' @ mode @ [NL]) endErr
        = Some (setModeOverride d mode, ''OK mode='' @ mode @ [NL])"
    by (rule handle_set_mode [OF m])
  show "modeOverride (setModeOverride d mode) = mode"
    by (simp add: setModeOverride_def)
  show "store (setModeOverride d mode) = store d"
    by (simp add: setModeOverride_def)
  show "d_pipeline (setModeOverride d mode) = d_pipeline d"
    by (simp add: setModeOverride_def)
next
  assume a: "modeOverride d \<noteq> [] \<and> daemon_status d = Idle"
  then obtain d' p where t: "toggle env d = Some d'" "d_pipeline d' = Some p"
    "store d' (config p)
         = (store d (configMgr d))
             \<lparr>Processing := (Processing (store d (configMgr d)))\<lparr>Mode := modeOverride d\<rparr>\<rparr>"
    using toggle_Idle_with_override [of d env] by blast
  then show "\<exists>d' p. toggle env d = Some d' \<and> d_pipeline d' = Some p
           \<and> Mode (Processing (store d' (config p))) = modeOverride d
           \<and> store d' (config p)
               = (store d (configMgr d))
                   \<lparr>Processing := (Processing (store d (configMgr d)))\<lparr>Mode := modeOverride d\<rparr>\<rparr>"
    by simp
next
  fix p sent d' resp
  assume a: "allocated d \<and> d_pipeline d = Some p \<and> handle env d sent endErr = Some (d', resp)"
  then have "config p < nextAddr d"
    by (auto simp: allocated_def)
  with a handle_frame [of env d sent endErr d' resp]
  show "store d' (config p) = store d (config p)"
    by simp
next
  fix p parsed
  assume a: "allocated d \<and> d_pipeline d = Some p"
  then have "config p < nextAddr d"
    by (auto simp: allocated_def)
  with Manager_reload_frame [of d parsed]
  show "store (Manager_reload d parsed) (config p) = store d (config p)"
    by simp
qed

theorem mode_override_only_for_new_sessions_witness:
  "handle exampleEnv idleDaemon (''m:llm'' @ [NL]) EOF
     = Some (setModeOverride idleDaemon ''llm'', ''OK mode=llm'' @ [NL])
   \<and> (\<exists>d' p. toggle exampleEnv (setModeOverride idleDaemon ''llm'') = Some d'
         \<and> d_pipeline d' = Some p \<and> Mode (Processing (store d' (config p))) = ''llm''
         \<and> Mode (Processing (store d' (configMgr d'))) = ''raw'')
   \<and> (\<exists>d' resp. handle exampleEnv busyDaemon (''m:llm'' @ [NL]) EOF = Some (d', resp)
         \<and> modeOverride d' = ''llm''
         \<and> d_pipeline d' = Some (atLoop startedPipeline)
         \<and> Mode (Processing (store d' (config (atLoop startedPipeline)))) = ''raw'')
   \<and> Mode (Processing (store (Manager_reload busyDaemon
          (Inr (exampleConfig\<lparr>Processing := \<lparr>Mode = ''llm''\<rparr>\<rparr>)))
        (config (atLoop startedPipeline)))) = ''raw''"
proof -
  have 1: "handle exampleEnv idleDaemon (''m:llm'' @ [NL]) EOF
     = Some (setModeOverride idleDaemon ''llm'', ''OK mode=llm'' @ [NL])"
    using mode_override_only_for_new_sessions [of "''llm''" exampleEnv idleDaemon EOF]
    by simp
  have i: "modeOverride (setModeOverride idleDaemon ''llm'') \<noteq> []
      \<and> daemon_status (setModeOverride idleDaemon ''llm'') = Idle"
    by (simp add: setModeOverride_def idleDaemon_def daemon_status_def)
  have s: "store (setModeOverride idleDaemon ''llm'')
        (configMgr (setModeOverride idleDaemon ''llm'')) = exampleHeap 0"
    "modeOverride (setModeOverride idleDaemon ''llm'') = ''llm''"
    by (simp_all add: setModeOverride_def idleDaemon_def)
  from i mode_override_only_for_new_sessions
      [of "''llm''" exampleEnv "setModeOverride idleDaemon ''llm''" EOF]
  obtain d' p where t: "toggle exampleEnv (setModeOverride idleDaemon ''llm'') = Some d'"
    "d_pipeline d' = Some p" "Mode (Processing (store d' (config p))) = ''llm''"
    unfolding s by blast
  have "store d' (configMgr d') = exampleHeap 0"
    using toggle_frame [OF t(1)] by (simp add: setModeOverride_def idleDaemon_def)
  with t have 2: "\<exists>d' p. toggle exampleEnv (setModeOverride idleDaemon ''llm'') = Some d'
         \<and> d_pipeline d' = Some p \<and> Mode (Processing (store d' (config p))) = ''llm''
         \<and> Mode (Processing (store d' (configMgr d'))) = ''raw''"
    by (auto simp: exampleHeap_mode)
  note b = mode_override_only_for_new_sessions [of "''llm''" exampleEnv busyDaemon EOF]
  from b have h: "handle exampleEnv busyDaemon (''m:llm'' @ [NL]) EOF
     = Some (setModeOverride busyDaemon ''llm'', ''OK mode=llm'' @ [NL])"
    by simp
  from b busyDaemon_facts(1,2) h
  have "store (setModeOverride busyDaemon ''llm'') (config (atLoop startedPipeline))
      = store busyDaemon (config (atLoop startedPipeline))"
    by blast
  with h have 3: "\<exists>d' resp. handle exampleEnv busyDaemon (''m:llm'' @ [NL]) EOF = Some (d', resp)
         \<and> modeOverride d' = ''llm''
         \<and> d_pipeline d' = Some (atLoop startedPipeline)
         \<and> Mode (Processing (store d' (config (atLoop startedPipeline)))) = ''raw''"
    by (simp add: busyDaemon_facts exampleHeap_mode) (simp add: setModeOverride_def busyDaemon_facts)
  from b busyDaemon_facts(1,2)
  have "store (Manager_reload busyDaemon (Inr (exampleConfig\<lparr>Processing := \<lparr>Mode = ''llm''\<rparr>\<rparr>)))
          (config (atLoop startedPipeline))
      = store busyDaemon (config (atLoop startedPipeline))"
    by blast
  then have 4: "Mode (Processing (store (Manager_reload busyDaemon
          (Inr (exampleConfig\<lparr>Processing := \<lparr>Mode = ''llm''\<rparr>\<rparr>)))
        (config (atLoop startedPipeline)))) = ''raw''"
    by (simp add: busyDaemon_facts exampleHeap_mode)
  from 1 2 3 4 show ?thesis
    by blast
qed

end
